theory Spec2Isabelle
  imports Complex_Main
begin

section \<open>The marketing-campaign dashboard script\<close>

text \<open>
  The repository is one Python script, \<^verbatim>\<open>main.py\<close>: \<^verbatim>\<open>load_data\<close> reads a CSV file into a
  pandas data frame and derives the columns \<^verbatim>\<open>Year\<close>, \<^verbatim>\<open>Month\<close>, \<^verbatim>\<open>Month_Name\<close> and
  \<^verbatim>\<open>Region\<close>; the body of the script filters the frame by two sidebar controls and computes
  the figures that are plotted.

  Conventions of the embedding. The data frame that \<^verbatim>\<open>load_data\<close> works on is a list of
  named columns of cells; the body of the script reads it as a list of rows, each row a
  record of the columns the script reads. Python's unbounded \<^verbatim>\<open>int\<close> is \<^typ>\<open>int\<close>.
  Python's \<^verbatim>\<open>float\<close> is idealised as \<^typ>\<open>real\<close>: rounding is not modelled. Exceptions
  are values of \<open>py_error\<close>, returned as \<^const>\<open>Inl\<close>.
\<close>

subsection \<open>Errors, campaigns, timestamps\<close>

datatype py_error =
  KeyError | ValueError | TypeError | AttributeError | FileNotFoundError | EmptyDataError

text \<open>Running one step after another: the first exception ends the run.\<close>

definition and_then :: "py_error + 'a \<Rightarrow> ('a \<Rightarrow> py_error + 'b) \<Rightarrow> py_error + 'b" where
  "and_then m f = (case m of Inl e \<Rightarrow> Inl e | Inr x \<Rightarrow> f x)"

text \<open>An operation applied to the elements of a list in turn.\<close>

fun traverse :: "('a \<Rightarrow> py_error + 'b) \<Rightarrow> 'a list \<Rightarrow> py_error + 'b list" where
  "traverse f [] = Inr []"
| "traverse f (x # xs) =
     (case f x of
        Inl e \<Rightarrow> Inl e
      | Inr y \<Rightarrow> (case traverse f xs of Inl e \<Rightarrow> Inl e | Inr ys \<Rightarrow> Inr (y # ys)))"

text \<open>The four keys of the \<^verbatim>\<open>COLORS\<close> dictionary, in its insertion order.\<close>

datatype campaign =
  Spring_Wine_Festival | Summer_Fruit_Bundle | Autumn_Meat_Sampler | Winter_Seafood_Discount

definition COLORS_keys :: "campaign list" where
  "COLORS_keys =
     [Spring_Wine_Festival, Summer_Fruit_Bundle, Autumn_Meat_Sampler, Winter_Seafood_Discount]"

fun campaign_name :: "campaign \<Rightarrow> string" where
  "campaign_name Spring_Wine_Festival = ''Spring Wine Festival''"
| "campaign_name Summer_Fruit_Bundle = ''Summer Fruit Bundle''"
| "campaign_name Autumn_Meat_Sampler = ''Autumn Meat Sampler''"
| "campaign_name Winter_Seafood_Discount = ''Winter Seafood Discount''"

text \<open>The fields of a \<^verbatim>\<open>pd.Timestamp\<close> that the script reads or sets.\<close>

record timestamp =
  year :: int
  month :: nat
  day :: nat
  hour :: nat
  minute :: nat
  second :: nat

text \<open>\<^verbatim>\<open>calendar.isleap\<close> and \<^verbatim>\<open>calendar.monthrange(y, m)[1]\<close> of the standard library.\<close>

definition isleap :: "int \<Rightarrow> bool" where
  "isleap y \<longleftrightarrow> y mod 4 = 0 \<and> (y mod 100 \<noteq> 0 \<or> y mod 400 = 0)"

definition mdays :: "nat list" where
  "mdays = [0, 31, 28, 31, 30, 31, 30, 31, 31, 30, 31, 30, 31]"

definition monthrange :: "int \<Rightarrow> nat \<Rightarrow> py_error + nat" where
  "monthrange y m =
     (if 1 \<le> m \<and> m \<le> 12
      then Inr (mdays ! m + (if m = 2 \<and> isleap y then 1 else 0))
      else Inl ValueError)"

text \<open>
  The constructor \<^verbatim>\<open>pd.Timestamp(year=, month=, day=, hour=, minute=, second=)\<close> raises
  \<^verbatim>\<open>ValueError\<close> on a date that does not exist; \<^verbatim>\<open>date.replace(year=y)\<close> builds the
  timestamp anew with the other fields kept, and raises likewise.
\<close>

definition Timestamp :: "int \<Rightarrow> nat \<Rightarrow> nat \<Rightarrow> nat \<Rightarrow> nat \<Rightarrow> nat \<Rightarrow> py_error + timestamp" where
  "Timestamp y m d h mi s =
     (case monthrange y m of
        Inl e \<Rightarrow> Inl e
      | Inr last_day \<Rightarrow>
          if 1 \<le> d \<and> d \<le> last_day \<and> h < 24 \<and> mi < 60 \<and> s < 60
          then Inr \<lparr>year = y, month = m, day = d, hour = h, minute = mi, second = s\<rparr>
          else Inl ValueError)"

definition replace_year :: "timestamp \<Rightarrow> int \<Rightarrow> py_error + timestamp" where
  "replace_year date y =
     Timestamp y (month date) (day date) (hour date) (minute date) (second date)"

text \<open>The timestamps that exist: the ones the constructor returns.\<close>

definition valid_timestamp :: "timestamp \<Rightarrow> bool" where
  "valid_timestamp t \<longleftrightarrow>
     Timestamp (year t) (month t) (day t) (hour t) (minute t) (second t) = Inr t"


subsection \<open>Data frames\<close>

text \<open>
  A cell of a frame: an integer, a float, a text, a timestamp or the missing value NaN. A
  frame is the list of its columns, each with its name; the columns of a frame have one
  length, the number of its rows. In a file a date is text; a \<open>Time_cell\<close> there stands
  for a text that \<^verbatim>\<open>pd.to_datetime\<close> reads as that timestamp, a \<open>Str_cell\<close> for a text
  that it rejects.
\<close>

datatype cell = Int_cell int | Float_cell real | Str_cell string | Time_cell timestamp | NaN

type_synonym series = "cell list"

type_synonym data_frame = "(string \<times> series) list"

text \<open>\<^verbatim>\<open>df[name]\<close> raises \<^verbatim>\<open>KeyError\<close> when the frame has no such column.\<close>

definition get_column :: "data_frame \<Rightarrow> string \<Rightarrow> py_error + series" where
  "get_column df name = (case map_of df name of None \<Rightarrow> Inl KeyError | Some s \<Rightarrow> Inr s)"

text \<open>
  \<^verbatim>\<open>df[name] = values\<close> replaces the values of the column of that name, where it stands,
  and appends a new column when there is none. The values assigned below have the length
  of the frame.
\<close>

fun set_column :: "string \<Rightarrow> series \<Rightarrow> data_frame \<Rightarrow> data_frame" where
  "set_column name vals [] = [(name, vals)]"
| "set_column name vals ((n, vs) # columns) =
     (if n = name then (n, vals) # columns else (n, vs) # set_column name vals columns)"

subsection \<open>Renaming the campaign columns\<close>

text \<open>
  \<^verbatim>\<open>df.rename(columns=mapping)\<close> works on the header: a column whose name is a key of
  the mapping takes the mapped name, any other column keeps its name.
\<close>

definition campaign_mapping :: "(string \<times> string) list" where
  "campaign_mapping =
     [(''AcceptedCmp1'', ''Spring Wine Festival''),
      (''AcceptedCmp2'', ''Summer Fruit Bundle''),
      (''AcceptedCmp3'', ''Autumn Meat Sampler''),
      (''AcceptedCmp4'', ''Winter Seafood Discount'')]"

definition rename_column :: "(string \<times> string) list \<Rightarrow> string \<Rightarrow> string" where
  "rename_column mapping name = (case map_of mapping name of Some new \<Rightarrow> new | None \<Rightarrow> name)"

definition rename :: "(string \<times> string) list \<Rightarrow> (string \<times> 'v list) list \<Rightarrow> (string \<times> 'v list) list" where
  "rename mapping columns = map (\<lambda>(name, vals). (rename_column mapping name, vals)) columns"

subsection \<open>Remapping the years\<close>

definition min_year :: int where "min_year = 2019"
definition max_year :: int where "max_year = 2023"

text \<open>\<^verbatim>\<open>Series.unique()\<close>: the distinct values in order of first appearance.\<close>

definition unique :: "'a list \<Rightarrow> 'a list" where
  "unique xs = rev (remdups (rev xs))"

text \<open>The loop over \<^verbatim>\<open>enumerate(sorted(original_years))\<close> that fills the dictionary.\<close>

definition year_mapping :: "int list \<Rightarrow> (int \<rightharpoonup> int)" where
  "year_mapping original_years =
     fold (\<lambda>(i, y) m. m(y \<mapsto> min_year + int i mod (max_year - min_year + 1)))
       (enumerate 0 (sort original_years)) Map.empty"

text \<open>
  The body of the loop over the dates. The lookup \<^verbatim>\<open>year_mapping[old_year]\<close> raises
  \<^verbatim>\<open>KeyError\<close> on a missing key; the \<^verbatim>\<open>except ValueError\<close> handler catches what
  \<^verbatim>\<open>date.replace\<close> raises and nothing else.
\<close>

definition new_date :: "(int \<rightharpoonup> int) \<Rightarrow> timestamp \<Rightarrow> py_error + timestamp" where
  "new_date ym date =
     (case ym (year date) of
        None \<Rightarrow> Inl KeyError
      | Some new_year \<Rightarrow>
          if month date = 2 \<and> day date = 29 \<and> \<not> isleap new_year
          then Timestamp new_year 2 28 (hour date) (minute date) (second date)
          else (case replace_year date new_year of
                  Inr d \<Rightarrow> Inr d
                | Inl ValueError \<Rightarrow>
                    (case monthrange new_year (month date) of
                       Inl e \<Rightarrow> Inl e
                     | Inr last_day \<Rightarrow>
                         Timestamp new_year (month date) last_day
                           (hour date) (minute date) (second date))
                | Inl e \<Rightarrow> Inl e))"

fun new_dates :: "(int \<rightharpoonup> int) \<Rightarrow> timestamp list \<Rightarrow> py_error + timestamp list" where
  "new_dates ym [] = Inr []"
| "new_dates ym (date # dates) =
     (case new_date ym date of
        Inl e \<Rightarrow> Inl e
      | Inr d \<Rightarrow> (case new_dates ym dates of Inl e \<Rightarrow> Inl e | Inr ds \<Rightarrow> Inr (d # ds)))"

subsection \<open>The derived columns\<close>

text \<open>
  \<^verbatim>\<open>pd.to_datetime\<close> of a column of the file: it raises \<^verbatim>\<open>ValueError\<close> on a text that
  is no date. Numbers and missing values in the date column are not modelled apart; they
  are taken to raise as well.
\<close>

fun to_datetime_cell :: "cell \<Rightarrow> py_error + timestamp" where
  "to_datetime_cell (Time_cell t) = Inr t"
| "to_datetime_cell _ = Inl ValueError"

definition to_datetime :: "series \<Rightarrow> py_error + timestamp list" where
  "to_datetime s = traverse to_datetime_cell s"

text \<open>
  The accessor \<^verbatim>\<open>.dt\<close> raises \<^verbatim>\<open>AttributeError\<close> on a column that does not hold
  timestamps. The column that line 81 assigns from the Python list \<^verbatim>\<open>new_dates\<close> holds
  timestamps when the list has some, and none when the list is empty.
\<close>

fun datetimelike :: "cell \<Rightarrow> py_error + timestamp" where
  "datetimelike (Time_cell t) = Inr t"
| "datetimelike _ = Inl AttributeError"

definition dt :: "series \<Rightarrow> py_error + timestamp list" where
  "dt s = (if s = [] then Inl AttributeError else traverse datetimelike s)"

text \<open>\<^verbatim>\<open>strftime('%B')\<close> in the default locale.\<close>

definition month_name_full :: "nat \<Rightarrow> string" where
  "month_name_full m =
     [''January'', ''February'', ''March'', ''April'', ''May'', ''June'', ''July'',
      ''August'', ''September'', ''October'', ''November'', ''December''] ! (m - 1)"

definition region_map :: "(int \<times> string) list" where
  "region_map = [(0, ''North''), (1, ''South''), (2, ''East''), (3, ''West'')]"

text \<open>
  \<^verbatim>\<open>series % k\<close>, cell by cell: the remainder has the sign of \<open>k\<close>, NaN stays NaN, and a
  text or a timestamp raises \<^verbatim>\<open>TypeError\<close>.
\<close>

fun cell_mod :: "int \<Rightarrow> cell \<Rightarrow> py_error + cell" where
  "cell_mod k (Int_cell n) = Inr (Int_cell (n mod k))"
| "cell_mod k (Float_cell x) = Inr (Float_cell (x - of_int k * of_int \<lfloor>x / of_int k\<rfloor>))"
| "cell_mod k NaN = Inr NaN"
| "cell_mod k (Str_cell s) = Inl TypeError"
| "cell_mod k (Time_cell t) = Inl TypeError"

text \<open>
  \<^verbatim>\<open>series.map(dictionary)\<close>, cell by cell: a value that is no key gives NaN; a float
  that equals an integer key finds it.
\<close>

fun map_dict :: "(int \<times> string) list \<Rightarrow> cell \<Rightarrow> cell" where
  "map_dict d (Int_cell n) = (case map_of d n of Some s \<Rightarrow> Str_cell s | None \<Rightarrow> NaN)"
| "map_dict d (Float_cell x) =
     (if x = of_int \<lfloor>x\<rfloor>
      then (case map_of d \<lfloor>x\<rfloor> of Some s \<Rightarrow> Str_cell s | None \<Rightarrow> NaN)
      else NaN)"
| "map_dict d c = NaN"

subsection \<open>\<^verbatim>\<open>load_data\<close>\<close>

text \<open>
  The file system maps the path of a file to the frame that \<^verbatim>\<open>pd.read_csv\<close> makes of it;
  a file without a header line has no columns, and \<^verbatim>\<open>pd.read_csv\<close> raises
  \<^verbatim>\<open>EmptyDataError\<close> on it. \<^verbatim>\<open>load_data\<close> returns the messages it reports through
  \<^verbatim>\<open>st.error\<close> together with its result, \<^const>\<open>None\<close> for Python's \<^verbatim>\<open>None\<close>. One call
  is modelled, without the cache of \<^verbatim>\<open>st.cache_data\<close>.
\<close>

type_synonym filesystem = "string \<rightharpoonup> data_frame"

definition os_path_exists :: "filesystem \<Rightarrow> string \<Rightarrow> bool" where
  "os_path_exists fs path \<longleftrightarrow> fs path \<noteq> None"

definition read_csv :: "filesystem \<Rightarrow> string \<Rightarrow> py_error + data_frame" where
  "read_csv fs path =
     (case fs path of
        None \<Rightarrow> Inl FileNotFoundError
      | Some df \<Rightarrow> if df = [] then Inl EmptyDataError else Inr df)"

text \<open>
  The steps of \<^verbatim>\<open>load_data\<close> in the order of the source: the file is read (line 29), the
  campaign columns are renamed (40), the dates are parsed and stored (43), the years are
  mapped and the new dates computed (48 to 79) and stored (81), the columns \<^verbatim>\<open>Year\<close>,
  \<^verbatim>\<open>Month\<close> and \<^verbatim>\<open>Month_Name\<close> are read off the stored dates through \<^verbatim>\<open>.dt\<close> (82 to
  84), and the column \<^verbatim>\<open>Region\<close> is computed from the column \<^verbatim>\<open>ID\<close> (94).
\<close>

definition load_data :: "filesystem \<Rightarrow> py_error + (string list \<times> data_frame option)" where
  "load_data fs =
     (if os_path_exists fs ''marketing_campaign.csv'' then
        and_then (read_csv fs ''marketing_campaign.csv'') (\<lambda>df.
        let df = rename campaign_mapping df in
        and_then (get_column df ''Dt_Customer'') (\<lambda>texts.
        and_then (to_datetime texts) (\<lambda>dates.
        let df = set_column ''Dt_Customer'' (map Time_cell dates) df;
            original_years = unique (map year dates);
            ym = year_mapping original_years in
        and_then (new_dates ym dates) (\<lambda>ds.
        let df = set_column ''Dt_Customer'' (map Time_cell ds) df in
        and_then (and_then (get_column df ''Dt_Customer'') dt) (\<lambda>stored.
        let df = set_column ''Year'' (map (\<lambda>d. Int_cell (year d)) stored) df;
            df = set_column ''Month'' (map (\<lambda>d. Int_cell (int (month d))) stored) df;
            df = set_column ''Month_Name'' (map (\<lambda>d. Str_cell (month_name_full (month d))) stored) df in
        and_then (get_column df ''ID'') (\<lambda>ids.
        and_then (traverse (cell_mod 4) ids) (\<lambda>remainders.
        let df = set_column ''Region'' (map (map_dict region_map) remainders) df in
        Inr ([], Some df))))))))
      else Inr ([''marketing_campaign.csv file not found.''], None))"

subsection \<open>The frame as the body of the script reads it\<close>

text \<open>
  A row of the loaded frame: the columns that the script reads, under the names they have
  after \<^verbatim>\<open>load_data\<close>. A missing region is \<^const>\<open>None\<close>.
\<close>

record row =
  ID :: int
  Education :: string
  Age :: int
  Income :: real
  Response :: int
  Spring_Wine_Festival_col :: int
  Summer_Fruit_Bundle_col :: int
  Autumn_Meat_Sampler_col :: int
  Winter_Seafood_Discount_col :: int
  Dt_Customer :: timestamp
  Year :: int
  Month :: nat
  Month_Name :: string
  Region :: "string option"

text \<open>\<^verbatim>\<open>df[campaign]\<close> for a key of \<^verbatim>\<open>COLORS\<close>.\<close>

fun campaign_col :: "campaign \<Rightarrow> row \<Rightarrow> int" where
  "campaign_col Spring_Wine_Festival r = Spring_Wine_Festival_col r"
| "campaign_col Summer_Fruit_Bundle r = Summer_Fruit_Bundle_col r"
| "campaign_col Autumn_Meat_Sampler r = Autumn_Meat_Sampler_col r"
| "campaign_col Winter_Seafood_Discount r = Winter_Seafood_Discount_col r"

text \<open>
  The body reads identifiers, ages, responses and campaign columns as integers, the
  education and the month name as texts, the income as a number (a missing income counts
  as nothing in the sum, the one use of it), the region as a text or NaN. A column that
  the frame lacks raises \<^verbatim>\<open>KeyError\<close>. On a cell of another kind the body is not
  modelled; it is taken to raise \<^verbatim>\<open>TypeError\<close>. The columns of a frame have one length;
  the reading checks it before it takes the lines by their index.
\<close>

fun int_of_cell :: "cell \<Rightarrow> py_error + int" where
  "int_of_cell (Int_cell n) = Inr n"
| "int_of_cell _ = Inl TypeError"

fun real_of_cell :: "cell \<Rightarrow> py_error + real" where
  "real_of_cell (Int_cell n) = Inr (of_int n)"
| "real_of_cell (Float_cell x) = Inr x"
| "real_of_cell NaN = Inr 0"
| "real_of_cell _ = Inl TypeError"

fun str_of_cell :: "cell \<Rightarrow> py_error + string" where
  "str_of_cell (Str_cell s) = Inr s"
| "str_of_cell _ = Inl TypeError"

fun time_of_cell :: "cell \<Rightarrow> py_error + timestamp" where
  "time_of_cell (Time_cell t) = Inr t"
| "time_of_cell _ = Inl TypeError"

fun str_option_of_cell :: "cell \<Rightarrow> py_error + string option" where
  "str_option_of_cell (Str_cell s) = Inr (Some s)"
| "str_option_of_cell NaN = Inr None"
| "str_option_of_cell _ = Inl TypeError"

definition column_as :: "(cell \<Rightarrow> py_error + 'a) \<Rightarrow> data_frame \<Rightarrow> string \<Rightarrow> py_error + 'a list" where
  "column_as f df name = and_then (get_column df name) (traverse f)"

definition rows_of :: "data_frame \<Rightarrow> py_error + row list" where
  "rows_of df =
     and_then (column_as int_of_cell df ''ID'') (\<lambda>ids.
     and_then (column_as str_of_cell df ''Education'') (\<lambda>educations.
     and_then (column_as int_of_cell df ''Age'') (\<lambda>ages.
     and_then (column_as real_of_cell df ''Income'') (\<lambda>incomes.
     and_then (column_as int_of_cell df ''Response'') (\<lambda>responses.
     and_then (column_as int_of_cell df ''Spring Wine Festival'') (\<lambda>springs.
     and_then (column_as int_of_cell df ''Summer Fruit Bundle'') (\<lambda>summers.
     and_then (column_as int_of_cell df ''Autumn Meat Sampler'') (\<lambda>autumns.
     and_then (column_as int_of_cell df ''Winter Seafood Discount'') (\<lambda>winters.
     and_then (column_as time_of_cell df ''Dt_Customer'') (\<lambda>dates.
     and_then (column_as int_of_cell df ''Year'') (\<lambda>years.
     and_then (column_as int_of_cell df ''Month'') (\<lambda>months.
     and_then (column_as str_of_cell df ''Month_Name'') (\<lambda>month_names.
     and_then (column_as str_option_of_cell df ''Region'') (\<lambda>regions.
     if list_all (\<lambda>n. n = length ids)
          [length educations, length ages, length incomes, length responses, length springs,
           length summers, length autumns, length winters, length dates, length years,
           length months, length month_names, length regions]
     then Inr (map (\<lambda>j. \<lparr>ID = ids ! j, Education = educations ! j, Age = ages ! j,
                         Income = incomes ! j, Response = responses ! j,
                         Spring_Wine_Festival_col = springs ! j,
                         Summer_Fruit_Bundle_col = summers ! j,
                         Autumn_Meat_Sampler_col = autumns ! j,
                         Winter_Seafood_Discount_col = winters ! j,
                         Dt_Customer = dates ! j, Year = years ! j, Month = nat (months ! j),
                         Month_Name = month_names ! j, Region = regions ! j\<rparr>)
                 [0..<length ids])
     else Inl ValueError))))))))))))))"

text \<open>\<^verbatim>\<open>load_data\<close> followed by this reading of its frame.\<close>

definition load_rows :: "filesystem \<Rightarrow> py_error + (string list \<times> row list option)" where
  "load_rows fs =
     and_then (load_data fs) (\<lambda>(messages, result).
       case result of
         None \<Rightarrow> Inr (messages, None)
       | Some df \<Rightarrow> and_then (rows_of df) (\<lambda>rows. Inr (messages, Some rows)))"

subsection \<open>The body of the script: filters and key figures\<close>

text \<open>
  \<^verbatim>\<open>Series.mean()\<close> of a series without missing values: NaN on the empty series.
\<close>

definition mean :: "real list \<Rightarrow> real option" where
  "mean xs = (if xs = [] then None else Some (sum_list xs / real (length xs)))"

text \<open>
  The two sidebar controls deliver \<^verbatim>\<open>selected_education\<close>, a list, and
  \<^verbatim>\<open>selected_region\<close>, a string. The test \<^verbatim>\<open>'Region' in df.columns\<close> is true of every
  frame \<^verbatim>\<open>load_data\<close> returns, whose last step writes the column. Comparing NaN with a
  string is false.
\<close>

definition filtered_df :: "row list \<Rightarrow> string list \<Rightarrow> string \<Rightarrow> row list" where
  "filtered_df df selected_education selected_region =
     (let by_education =
            (if selected_education \<noteq> []
             then filter (\<lambda>r. Education r \<in> set selected_education) df
             else df)
      in if selected_region \<noteq> ''All Regions''
         then filter (\<lambda>r. Region r = Some selected_region) by_education
         else by_education)"

definition response_rate :: "row list \<Rightarrow> real option" where
  "response_rate fdf = map_option (\<lambda>m. m * 100) (mean (map (\<lambda>r. real_of_int (Response r)) fdf))"

definition total_income :: "row list \<Rightarrow> real" where
  "total_income fdf = sum_list (map Income fdf)"

definition campaign_data :: "row list \<Rightarrow> (campaign \<times> real option) list" where
  "campaign_data fdf =
     map (\<lambda>c. (c, map_option (\<lambda>m. m * 100) (mean (map (\<lambda>r. real_of_int (campaign_col c r)) fdf))))
       COLORS_keys"

subsection \<open>Age groups\<close>

text \<open>
  \<^verbatim>\<open>pd.cut(x, bins, labels, right=False)\<close>: the label of the first interval
  \<open>[bins[i], bins[i+1])\<close> that holds \<open>x\<close>, NaN when none does.
\<close>

fun cut :: "int list \<Rightarrow> string list \<Rightarrow> int \<Rightarrow> string option" where
  "cut (lo # hi # bins) (l # labels) x =
     (if lo \<le> x \<and> x < hi then Some l else cut (hi # bins) labels x)"
| "cut _ _ _ = None"

definition age_bins :: "int list" where
  "age_bins = [20, 35, 50, 65, 90]"

definition age_labels :: "string list" where
  "age_labels = [''20-34'', ''35-49'', ''50-64'', ''65+'']"

definition Age_Group :: "row \<Rightarrow> string option" where
  "Age_Group r = cut age_bins age_labels (Age r)"

text \<open>
  \<^verbatim>\<open>groupby('Age_Group')['Response'].mean()\<close>: one line per category, in the order of the
  labels; a row whose key is NaN belongs to no group.
\<close>

definition age_response :: "row list \<Rightarrow> (string \<times> real option) list" where
  "age_response fdf =
     map (\<lambda>l. (l, map_option (\<lambda>m. m * 100)
                    (mean (map (\<lambda>r. real_of_int (Response r))
                             (filter (\<lambda>r. Age_Group r = Some l) fdf)))))
       age_labels"

subsection \<open>Yearly trends and the synthetic years\<close>

text \<open>
  A line of \<^verbatim>\<open>yearly_trends\<close>: the year and the rate of each campaign.
  \<^verbatim>\<open>groupby('Year')[...].mean().reset_index()\<close> gives one line per year that occurs, in
  ascending order; the group of such a year is not empty, so its mean is a number.
\<close>

type_synonym trend = "int \<times> (campaign \<Rightarrow> real)"

definition group_mean :: "real list \<Rightarrow> real" where
  "group_mean xs = sum_list xs / real (length xs)"

definition yearly_trends :: "row list \<Rightarrow> trend list" where
  "yearly_trends fdf =
     map (\<lambda>y. (y, \<lambda>c. group_mean (map (\<lambda>r. real_of_int (campaign_col c r))
                                      (filter (\<lambda>r. Year r = y) fdf))))
       (sort (unique (map Year fdf)))"

text \<open>The three dictionaries, with the defaults of the empty frame.\<close>

definition min_rates :: "trend list \<Rightarrow> campaign \<Rightarrow> real" where
  "min_rates yt c =
     (if yt \<noteq> [] then Min (set (map (\<lambda>t. snd t c) yt)) * (9 / 10) else 5 / 100)"

definition max_rates :: "trend list \<Rightarrow> campaign \<Rightarrow> real" where
  "max_rates yt c =
     (if yt \<noteq> [] then min (Max (set (map (\<lambda>t. snd t c) yt)) * (11 / 10)) (35 / 100)
      else 25 / 100)"

definition avg_rates :: "trend list \<Rightarrow> campaign \<Rightarrow> real" where
  "avg_rates yt c =
     (if yt \<noteq> [] then group_mean (map (\<lambda>t. snd t c) yt) else 15 / 100)"

text \<open>
  The trend curve of each campaign, before clamping; \<open>mn\<close>, \<open>base_value\<close> and \<open>mx\<close> stand
  for \<^verbatim>\<open>min_rates[campaign]\<close>, \<^verbatim>\<open>avg_rates[campaign]\<close> and \<^verbatim>\<open>max_rates[campaign]\<close>.
\<close>

fun trend_value :: "campaign \<Rightarrow> int \<Rightarrow> real \<Rightarrow> real \<Rightarrow> real \<Rightarrow> real" where
  "trend_value Spring_Wine_Festival y mn base_value mx =
     (if y < 2021
      then mn + real_of_int (y - 2019) * (base_value - mn) / 3
      else base_value + real_of_int (y - 2021) * (mx - base_value) / 4)"
| "trend_value Summer_Fruit_Bundle y mn base_value mx =
     (let cycle = real_of_int (y - 2019) / 2;
          amplitude = (1 / 2) * sin (cycle * pi) * (mx - mn) / 3
      in base_value + amplitude)"
| "trend_value Autumn_Meat_Sampler y mn base_value mx =
     (let progress = real_of_int (y - 2019) / 5
      in mn + progress * (mx - mn) * (8 / 10))"
| "trend_value Winter_Seafood_Discount y mn base_value mx =
     (if y < 2021
      then mn + real_of_int (y - 2019) * (mx - mn) / 2
      else if y < 2023
      then mx - real_of_int (y - 2021) * (mx - mn) / 3
      else mn + real_of_int (y - 2023) * (base_value - mn) / 2)"

text \<open>The value stored in \<^verbatim>\<open>new_row[campaign]\<close>.\<close>

definition generated_rate :: "campaign \<Rightarrow> int \<Rightarrow> real \<Rightarrow> real \<Rightarrow> real \<Rightarrow> real" where
  "generated_rate c y mn base_value mx = max mn (min (trend_value c y mn base_value mx) mx)"

definition all_years :: "int list" where
  "all_years = [2019, 2020, 2021, 2022, 2023, 2024]"

definition existing_years :: "trend list \<Rightarrow> int list" where
  "existing_years yt = unique (map fst yt)"

definition missing_years :: "trend list \<Rightarrow> int list" where
  "missing_years yt = filter (\<lambda>y. y \<notin> set (existing_years yt)) all_years"

text \<open>
  The loop over the missing years: each pass appends one line to \<^verbatim>\<open>yearly_trends\<close>
  with \<^verbatim>\<open>pd.concat\<close>. The three dictionaries and the list of missing years are computed
  before the loop, from the table as it was.
\<close>

definition new_row :: "trend list \<Rightarrow> int \<Rightarrow> trend" where
  "new_row yt y =
     (y, \<lambda>c. generated_rate c y (min_rates yt c) (avg_rates yt c) (max_rates yt c))"

definition fill_missing_years :: "trend list \<Rightarrow> trend list" where
  "fill_missing_years yt =
     (if length (existing_years yt) < 6
      then fold (\<lambda>y acc. acc @ [new_row yt y]) (missing_years yt) yt
      else yt)"

subsection \<open>The script\<close>

text \<open>
  What the script computes once the frame is loaded, up to the table behind the trend
  chart. Nothing of it is computed when \<^verbatim>\<open>load_data\<close> returns \<^verbatim>\<open>None\<close>: the whole body
  stands under \<^verbatim>\<open>if df is not None\<close>.
\<close>

record dashboard =
  kpi_response_rate :: "real option"
  kpi_total_income :: real
  fig1_data :: "(campaign \<times> real option) list"
  fig2_data :: "(string \<times> real option) list"
  fig3_data :: "trend list"

definition render :: "row list \<Rightarrow> string list \<Rightarrow> string \<Rightarrow> dashboard" where
  "render df selected_education selected_region =
     (let fdf = filtered_df df selected_education selected_region
      in \<lparr>kpi_response_rate = response_rate fdf,
          kpi_total_income = total_income fdf,
          fig1_data = campaign_data fdf,
          fig2_data = age_response fdf,
          fig3_data = fill_missing_years (yearly_trends fdf)\<rparr>)"

definition script :: "filesystem \<Rightarrow> string list \<Rightarrow> string \<Rightarrow> py_error + (string list \<times> dashboard option)" where
  "script fs selected_education selected_region =
     (case load_data fs of
        Inl e \<Rightarrow> Inl e
      | Inr (messages, None) \<Rightarrow> Inr (messages, None)
      | Inr (messages, Some df) \<Rightarrow>
          (case rows_of df of
             Inl e \<Rightarrow> Inl e
           | Inr rows \<Rightarrow>
               Inr (messages, Some (render rows selected_education selected_region))))"

subsection \<open>The rank of a year, as the specification words it\<close>

text \<open>
  The rank of a year among the sorted distinct years of the file: its position in that
  list, Python's \<^verbatim>\<open>sorted(original_years).index(y)\<close>. The date the specification
  promises for a customer date: the year \<open>2019 + rank mod 5\<close>, month and day kept, but
  February 29 moved to February 28 when the new year is no leap year.
\<close>

definition year_rank :: "int list \<Rightarrow> int \<Rightarrow> nat" where
  "year_rank years y = length (takeWhile (\<lambda>z. z \<noteq> y) (sort (unique years)))"

definition remapped :: "int list \<Rightarrow> timestamp \<Rightarrow> timestamp" where
  "remapped years date =
     (let new_year = 2019 + int (year_rank years (year date) mod 5)
      in date\<lparr>year := new_year,
              day := (if month date = 2 \<and> day date = 29 \<and> \<not> isleap new_year
                      then 28 else day date)\<rparr>)"

subsection \<open>Files of customers\<close>

text \<open>
  A customer, as a line of the file gives it, and the file of a list of customers: the
  columns of the data set that the script reads, in the order of the data set. The row
  that the loaded frame is to have for a customer, given the new date: the campaign
  columns under their new names, the other columns as they were, and the four derived
  columns.
\<close>

record csv_row =
  csv_ID :: int
  csv_Education :: string
  csv_Age :: int
  csv_Income :: real
  csv_Response :: int
  AcceptedCmp1 :: int
  AcceptedCmp2 :: int
  AcceptedCmp3 :: int
  AcceptedCmp4 :: int
  csv_Dt_Customer :: timestamp

definition csv_frame :: "csv_row list \<Rightarrow> data_frame" where
  "csv_frame customers =
     [(''ID'', map (\<lambda>c. Int_cell (csv_ID c)) customers),
      (''Age'', map (\<lambda>c. Int_cell (csv_Age c)) customers),
      (''Education'', map (\<lambda>c. Str_cell (csv_Education c)) customers),
      (''Income'', map (\<lambda>c. Float_cell (csv_Income c)) customers),
      (''Dt_Customer'', map (\<lambda>c. Time_cell (csv_Dt_Customer c)) customers),
      (''AcceptedCmp3'', map (\<lambda>c. Int_cell (AcceptedCmp3 c)) customers),
      (''AcceptedCmp4'', map (\<lambda>c. Int_cell (AcceptedCmp4 c)) customers),
      (''AcceptedCmp1'', map (\<lambda>c. Int_cell (AcceptedCmp1 c)) customers),
      (''AcceptedCmp2'', map (\<lambda>c. Int_cell (AcceptedCmp2 c)) customers),
      (''Response'', map (\<lambda>c. Int_cell (csv_Response c)) customers)]"

definition region_of :: "int \<Rightarrow> string option" where
  "region_of i = map_of region_map (i mod 4)"

definition make_row :: "csv_row \<Rightarrow> timestamp \<Rightarrow> row" where
  "make_row c d =
     \<lparr>ID = csv_ID c, Education = csv_Education c, Age = csv_Age c, Income = csv_Income c,
      Response = csv_Response c,
      Spring_Wine_Festival_col = AcceptedCmp1 c, Summer_Fruit_Bundle_col = AcceptedCmp2 c,
      Autumn_Meat_Sampler_col = AcceptedCmp3 c, Winter_Seafood_Discount_col = AcceptedCmp4 c,
      Dt_Customer = d, Year = year d, Month = month d, Month_Name = month_name_full (month d),
      Region = region_of (csv_ID c)\<rparr>"

subsection \<open>Sample inputs\<close>

text \<open>
  Small files and tables on which the results below are evaluated: a customer with the
  given identifier, education, age, response, acceptance of the first campaign and
  enrolment date, who declined the other three campaigns; a file of one line with a
  column that the script does not read; a file with a header and no customer.
\<close>

definition midnight :: "int \<Rightarrow> nat \<Rightarrow> nat \<Rightarrow> timestamp" where
  "midnight y m d = \<lparr>year = y, month = m, day = d, hour = 0, minute = 0, second = 0\<rparr>"

definition customer :: "int \<Rightarrow> string \<Rightarrow> int \<Rightarrow> int \<Rightarrow> int \<Rightarrow> timestamp \<Rightarrow> csv_row" where
  "customer i edu a resp cmp1 date =
     \<lparr>csv_ID = i, csv_Education = edu, csv_Age = a, csv_Income = 50000, csv_Response = resp,
      AcceptedCmp1 = cmp1, AcceptedCmp2 = 0, AcceptedCmp3 = 0, AcceptedCmp4 = 0,
      csv_Dt_Customer = date\<rparr>"

definition one_customer_csv :: "csv_row list" where
  "one_customer_csv = [customer 0 ''PhD'' 40 1 1 (midnight 2013 5 1)]"

definition one_customer_file :: filesystem where
  "one_customer_file = [''marketing_campaign.csv'' \<mapsto> csv_frame one_customer_csv]"

definition one_customer_df :: "row list" where
  "one_customer_df =
     [make_row (customer 0 ''PhD'' 40 1 1 (midnight 2013 5 1)) (midnight 2019 5 1)]"

definition two_customer_csv :: "csv_row list" where
  "two_customer_csv =
     [customer 0 ''PhD'' 40 1 1 (midnight 2012 2 29),
      customer 1 ''Master'' 95 0 0 (midnight 2013 7 15)]"

definition two_customer_file :: filesystem where
  "two_customer_file = [''marketing_campaign.csv'' \<mapsto> csv_frame two_customer_csv]"

definition two_customer_df :: "row list" where
  "two_customer_df =
     [make_row (customer 0 ''PhD'' 40 1 1 (midnight 2012 2 29)) (midnight 2019 2 28),
      make_row (customer 1 ''Master'' 95 0 0 (midnight 2013 7 15)) (midnight 2020 7 15)]"

definition campaigns_frame :: data_frame where
  "campaigns_frame =
     [(''ID'', [Int_cell 7]),
      (''AcceptedCmp3'', [Int_cell 1]),
      (''AcceptedCmp4'', [Int_cell 0]),
      (''AcceptedCmp1'', [Int_cell 0]),
      (''AcceptedCmp2'', [Int_cell 1]),
      (''Dt_Customer'', [Time_cell (midnight 2014 1 31)]),
      (''Marital_Status'', [Str_cell ''Single''])]"

definition campaigns_file :: filesystem where
  "campaigns_file = [''marketing_campaign.csv'' \<mapsto> campaigns_frame]"

definition header_only_file :: filesystem where
  "header_only_file = [''marketing_campaign.csv'' \<mapsto> csv_frame []]"

definition trends_a :: "trend list" where
  "trends_a = [(2019, \<lambda>c. 1 / 10), (2020, \<lambda>c. 2 / 10)]"

definition trends_b :: "trend list" where
  "trends_b = [(2020, \<lambda>c. 1 / 10), (2019, \<lambda>c. 2 / 10)]"


section \<open>Loading the data\<close>

subsection \<open>The year dictionary\<close>

lemma set_unique [simp]: "set (unique xs) = set xs"
  by (simp add: unique_def)

lemma distinct_unique [simp]: "distinct (unique xs)"
  by (simp add: unique_def)

text \<open>A key that the loop does not visit keeps its entry.\<close>

lemma fold_enumerate_other:
  "y \<notin> set xs \<Longrightarrow> fold (\<lambda>(i, z) m. m(z \<mapsto> f i)) (enumerate n xs) m y = m y"
  by (induction xs arbitrary: n m) auto

text \<open>Over distinct keys no entry is overwritten: each key ends with its own index.\<close>

lemma fold_enumerate_index:
  "distinct xs \<Longrightarrow> y \<in> set xs \<Longrightarrow>
   fold (\<lambda>(i, z) m. m(z \<mapsto> f i)) (enumerate n xs) m y
     = Some (f (n + length (takeWhile (\<lambda>z. z \<noteq> y) xs)))"
proof (induction xs arbitrary: n m)
  case Nil
  then show ?case by simp
next
  case (Cons x xs)
  show ?case
  proof (cases "x = y")
    case True
    with Cons.prems have "y \<notin> set xs" by simp
    from fold_enumerate_other [OF this, of f "Suc n" "m(y \<mapsto> f n)"] True
    show ?thesis by (simp del: fun_upd_apply add: fun_upd_same fun_upd_other)
  next
    case False
    with Cons.prems have "distinct xs" "y \<in> set xs" by auto
    from Cons.IH [OF this, of "Suc n" "m(x \<mapsto> f n)"] False
    show ?thesis by (simp del: fun_upd_apply add: fun_upd_same fun_upd_other)
  qed
qed

lemma year_mapping_lookup:
  assumes "y \<in> set years"
  shows "year_mapping (unique years) y = Some (2019 + int (year_rank years y mod 5))"
proof -
  have "distinct (sort (unique years))" "y \<in> set (sort (unique years))"
    using assms by simp_all
  from fold_enumerate_index [OF this,
      of "\<lambda>i. min_year + int i mod (max_year - min_year + 1)" 0 Map.empty]
  show ?thesis
    by (simp add: year_mapping_def year_rank_def min_year_def max_year_def zmod_int)
qed

lemma takeWhile_index_less:
  "y \<in> set xs \<Longrightarrow> length (takeWhile (\<lambda>z. z \<noteq> y) xs) < length xs"
  by (induction xs) auto

lemma year_rank_nth:
  assumes "y \<in> set years"
  shows "year_rank years y < length (sort (unique years)) \<and>
         sort (unique years) ! year_rank years y = y"
proof -
  let ?s = "sort (unique years)"
  have "y \<in> set ?s" using assms by simp
  then have less: "length (takeWhile (\<lambda>z. z \<noteq> y) ?s) < length ?s"
    by (rule takeWhile_index_less)
  from nth_length_takeWhile [OF less] less show ?thesis
    by (simp add: year_rank_def)
qed

subsection \<open>The new dates\<close>

lemma monthrange_feb: "monthrange y 2 = Inr (if isleap y then 29 else 28)"
  by (simp add: monthrange_def mdays_def)

lemma monthrange_other: "m \<noteq> 2 \<Longrightarrow> monthrange y m = monthrange y' m"
  by (simp add: monthrange_def)

lemma valid_timestamp_iff:
  "valid_timestamp t \<longleftrightarrow>
     (\<exists>l. monthrange (year t) (month t) = Inr l \<and> 1 \<le> day t \<and> day t \<le> l) \<and>
     hour t < 24 \<and> minute t < 60 \<and> second t < 60"
  by (auto simp: valid_timestamp_def Timestamp_def split: sum.splits)

text \<open>
  On a date that exists the loop body never raises, and never reaches the handler: only
  February changes its length with the year, and its 29th is dealt with before.
\<close>

lemma new_date_valid:
  assumes "valid_timestamp date" and "ym (year date) = Some new_year"
  shows "new_date ym date =
     Inr (date\<lparr>year := new_year,
               day := (if month date = 2 \<and> day date = 29 \<and> \<not> isleap new_year
                       then 28 else day date)\<rparr>)"
proof -
  from assms(1) obtain l where l: "monthrange (year date) (month date) = Inr l"
    "1 \<le> day date" "day date \<le> l" and t: "hour date < 24" "minute date < 60" "second date < 60"
    by (auto simp: valid_timestamp_iff)
  show ?thesis
  proof (cases "month date = 2")
    case True
    with l have "day date \<le> 29" by (simp add: monthrange_feb split: if_splits)
    with True l t assms(2) show ?thesis
      by (auto simp: new_date_def replace_year_def Timestamp_def monthrange_feb)
  next
    case False
    from monthrange_other [OF False, of new_year "year date"] l
    have "monthrange new_year (month date) = Inr l" by simp
    with False l t assms(2) show ?thesis
      by (simp add: new_date_def replace_year_def Timestamp_def)
  qed
qed

lemma new_dates_valid:
  assumes "\<forall>d\<in>set ds. valid_timestamp d \<and> year d \<in> set years"
  shows "new_dates (year_mapping (unique years)) ds = Inr (map (remapped years) ds)"
  using assms
proof (induction ds)
  case Nil
  then show ?case by simp
next
  case (Cons d ds)
  then have "valid_timestamp d" "year d \<in> set years" by simp_all
  then have "new_date (year_mapping (unique years)) d = Inr (remapped years d)"
    by (simp add: new_date_valid [OF _ year_mapping_lookup] remapped_def Let_def)
  with Cons show ?case by simp
qed

subsection \<open>Steps, columns and frames\<close>

lemma and_then_Inr [simp]: "and_then (Inr x) f = f x"
  by (simp add: and_then_def)

lemma and_then_Inl [simp]: "and_then (Inl e) f = Inl e"
  by (simp add: and_then_def)

lemma and_then_eq_Inr:
  "and_then m f = Inr y \<longleftrightarrow> (\<exists>x. m = Inr x \<and> f x = Inr y)"
  by (cases m) simp_all

lemma traverse_Inr:
  "traverse f xs = Inr ys \<Longrightarrow>
   length ys = length xs \<and> (\<forall>i<length xs. f (xs ! i) = Inr (ys ! i))"
proof (induction xs arbitrary: ys)
  case Nil
  then show ?case by simp
next
  case (Cons x xs)
  then obtain y ys' where y: "f x = Inr y" and ys': "traverse f xs = Inr ys'" and ys: "ys = y # ys'"
    by (auto split: sum.splits)
  from Cons.IH [OF ys'] y ys show ?case
    by (auto simp: nth_Cons split: nat.splits)
qed

lemma map_of_set_column:
  "map_of (set_column name vals df) m = (if m = name then Some vals else map_of df m)"
  by (induction df) auto

lemma get_column_set_column:
  "get_column (set_column name vals df) m = (if m = name then Inr vals else get_column df m)"
  by (simp add: get_column_def map_of_set_column)

lemma length_set_column: "length df \<le> length (set_column name vals df)"
  by (induction df) auto

lemma nth_set_column:
  "i < length df \<Longrightarrow>
   fst (set_column name vals df ! i) = fst (df ! i) \<and>
   (fst (df ! i) \<noteq> name \<longrightarrow> snd (set_column name vals df ! i) = snd (df ! i))"
proof (induction df arbitrary: i)
  case Nil
  then show ?case by simp
next
  case (Cons c df)
  show ?case
  proof (cases i)
    case 0
    then show ?thesis by (cases c) simp
  next
    case (Suc j)
    with Cons.prems have "j < length df" by simp
    from Cons.IH [OF this] Suc show ?thesis by (cases c) simp
  qed
qed

lemma rename_column_campaign:
  "rename_column campaign_mapping name =
     (if name = ''AcceptedCmp1'' then ''Spring Wine Festival''
      else if name = ''AcceptedCmp2'' then ''Summer Fruit Bundle''
      else if name = ''AcceptedCmp3'' then ''Autumn Meat Sampler''
      else if name = ''AcceptedCmp4'' then ''Winter Seafood Discount''
      else name)"
  by (simp add: rename_column_def campaign_mapping_def)

text \<open>A name that the mapping neither takes nor gives finds the same column as before.\<close>

lemma map_of_rename_other:
  assumes "rename_column mapping name = name"
    and "\<And>n. rename_column mapping n = name \<Longrightarrow> n = name"
  shows "map_of (rename mapping df) name = map_of df name"
proof (induction df)
  case Nil
  then show ?case by (simp add: rename_def)
next
  case (Cons c df)
  obtain n vs where c: "c = (n, vs)" by (cases c)
  from Cons assms show ?case
    by (auto simp: rename_def c)
qed

lemma map_of_rename_campaign:
  "name \<notin> {''AcceptedCmp1'', ''AcceptedCmp2'', ''AcceptedCmp3'', ''AcceptedCmp4'',
             ''Spring Wine Festival'', ''Summer Fruit Bundle'', ''Autumn Meat Sampler'',
             ''Winter Seafood Discount''} \<Longrightarrow>
   map_of (rename campaign_mapping df) name = map_of df name"
  by (rule map_of_rename_other) (auto simp: rename_column_campaign split: if_splits)

lemma nth_rename:
  "i < length df \<Longrightarrow>
   rename mapping df ! i = (rename_column mapping (fst (df ! i)), snd (df ! i))"
  by (simp add: rename_def case_prod_beta)

lemma get_column_Inr: "get_column df name = Inr s \<longleftrightarrow> map_of df name = Some s"
  by (simp add: get_column_def split: option.splits)

lemma load_data_absent:
  "fs ''marketing_campaign.csv'' = None \<Longrightarrow>
   load_data fs = Inr ([''marketing_campaign.csv file not found.''], None)"
  by (simp add: load_data_def os_path_exists_def)

lemma traverse_datetimelike: "traverse datetimelike (map Time_cell ds) = Inr ds"
  by (induction ds) simp_all

lemma dt_Time_cells: "ds \<noteq> [] \<Longrightarrow> dt (map Time_cell ds) = Inr ds"
  by (simp add: dt_def traverse_datetimelike)

lemma dt_Inr: "dt (map Time_cell ds) = Inr stored \<Longrightarrow> stored = ds \<and> ds \<noteq> []"
  using dt_Time_cells [of ds] by (cases "ds = []") (simp_all add: dt_def)

lemma to_datetime_Time_cells: "to_datetime (map Time_cell dates) = Inr dates"
  unfolding to_datetime_def by (induction dates) simp_all

text \<open>What a run of \<^verbatim>\<open>load_data\<close> that returns a frame has done.\<close>

lemma load_data_Some:
  assumes "load_data fs = Inr (messages, Some df)"
  shows "\<exists>t texts dates ds ids remainders.
     fs ''marketing_campaign.csv'' = Some t \<and> t \<noteq> [] \<and> messages = [] \<and>
     map_of (rename campaign_mapping t) ''Dt_Customer'' = Some texts \<and>
     to_datetime texts = Inr dates \<and>
     new_dates (year_mapping (unique (map year dates))) dates = Inr ds \<and> ds \<noteq> [] \<and>
     map_of (rename campaign_mapping t) ''ID'' = Some ids \<and>
     traverse (cell_mod 4) ids = Inr remainders \<and>
     df = set_column ''Region'' (map (map_dict region_map) remainders)
           (set_column ''Month_Name'' (map (\<lambda>d. Str_cell (month_name_full (month d))) ds)
             (set_column ''Month'' (map (\<lambda>d. Int_cell (int (month d))) ds)
               (set_column ''Year'' (map (\<lambda>d. Int_cell (year d)) ds)
                 (set_column ''Dt_Customer'' (map Time_cell ds)
                   (set_column ''Dt_Customer'' (map Time_cell dates)
                     (rename campaign_mapping t))))))"
proof -
  from assms obtain t where t: "fs ''marketing_campaign.csv'' = Some t"
    by (auto simp: load_data_def os_path_exists_def split: if_splits)
  with assms have ne: "t \<noteq> []"
    by (auto simp: load_data_def os_path_exists_def read_csv_def)
  let ?r = "rename campaign_mapping t"
  from assms t ne obtain texts dates ds stored ids remainders where
      texts: "get_column ?r ''Dt_Customer'' = Inr texts"
    and dates: "to_datetime texts = Inr dates"
    and ds: "new_dates (year_mapping (unique (map year dates))) dates = Inr ds"
    and stored: "dt (map Time_cell ds) = Inr stored"
    and ids: "get_column ?r ''ID'' = Inr ids"
    and rems: "traverse (cell_mod 4) ids = Inr remainders"
    and df: "([] :: string list, Some (set_column ''Region'' (map (map_dict region_map) remainders)
           (set_column ''Month_Name'' (map (\<lambda>d. Str_cell (month_name_full (month d))) stored)
             (set_column ''Month'' (map (\<lambda>d. Int_cell (int (month d))) stored)
               (set_column ''Year'' (map (\<lambda>d. Int_cell (year d)) stored)
                 (set_column ''Dt_Customer'' (map Time_cell ds)
                   (set_column ''Dt_Customer'' (map Time_cell dates) ?r))))))) = (messages, Some df)"
    by (auto simp: load_data_def os_path_exists_def read_csv_def Let_def and_then_eq_Inr
        get_column_set_column)
  from dt_Inr [OF stored] have "stored = ds" "ds \<noteq> []" by simp_all
  with t ne texts dates ds ids rems df show ?thesis
    by (auto simp: get_column_Inr)
qed

lemma load_data_None_absent:
  assumes "load_data fs = Inr (messages, None)"
  shows "fs ''marketing_campaign.csv'' = None"
proof (rule ccontr)
  assume "fs ''marketing_campaign.csv'' \<noteq> None"
  with assms show False
    by (auto simp: load_data_def os_path_exists_def Let_def and_then_eq_Inr)
qed

text \<open>
  A file with a column of dates that exist, at least one of them, and a column of
  identifiers that are numbers or missing: \<^verbatim>\<open>load_data\<close> returns the renamed frame with
  the new dates and the four derived columns.
\<close>

lemma load_data_present:
  assumes t: "fs ''marketing_campaign.csv'' = Some t"
    and dates: "map_of t ''Dt_Customer'' = Some (map Time_cell dates)"
    and ne: "dates \<noteq> []"
    and valid: "\<forall>d\<in>set dates. valid_timestamp d"
    and ids: "map_of t ''ID'' = Some ids"
    and rems: "traverse (cell_mod 4) ids = Inr remainders"
    and stored: "stored = map (remapped (map year dates)) dates"
  shows "load_data fs =
     Inr ([], Some (set_column ''Region'' (map (map_dict region_map) remainders)
           (set_column ''Month_Name'' (map (\<lambda>d. Str_cell (month_name_full (month d))) stored)
             (set_column ''Month'' (map (\<lambda>d. Int_cell (int (month d))) stored)
               (set_column ''Year'' (map (\<lambda>d. Int_cell (year d)) stored)
                 (set_column ''Dt_Customer'' (map Time_cell stored)
                   (set_column ''Dt_Customer'' (map Time_cell dates)
                     (rename campaign_mapping t))))))))"
proof -
  let ?r = "rename campaign_mapping t"
  from dates have "t \<noteq> []" by auto
  with t have read: "read_csv fs ''marketing_campaign.csv'' = Inr t"
    by (simp add: read_csv_def)
  have texts: "get_column ?r ''Dt_Customer'' = Inr (map Time_cell dates)"
    using dates by (simp add: get_column_Inr map_of_rename_campaign)
  have "\<forall>d\<in>set dates. valid_timestamp d \<and> year d \<in> set (map year dates)"
    using valid by simp
  from new_dates_valid [OF this]
  have ds: "new_dates (year_mapping (unique (map year dates))) dates = Inr stored"
    by (simp add: stored)
  from ne have "stored \<noteq> []" by (simp add: stored)
  then have dt: "dt (map Time_cell stored) = Inr stored" by (rule dt_Time_cells)
  have id: "get_column ?r ''ID'' = Inr ids"
    using ids by (simp add: get_column_Inr map_of_rename_campaign)
  from t read texts ds dt id rems show ?thesis
    by (simp add: load_data_def os_path_exists_def Let_def to_datetime_Time_cells
        get_column_set_column)
qed

subsection \<open>The rows that the body reads\<close>

lemma region_of_cases:
  "region_of i =
     Some (if i mod 4 = 0 then ''North'' else if i mod 4 = 1 then ''South''
           else if i mod 4 = 2 then ''East'' else ''West'')"
proof -
  have "i mod 4 = 0 \<or> i mod 4 = 1 \<or> i mod 4 = 2 \<or> i mod 4 = 3" by presburger
  then show ?thesis by (auto simp: region_of_def region_map_def)
qed

lemma map_dict_region:
  "map_dict region_map (Int_cell (n mod 4)) =
     Str_cell (if n mod 4 = 0 then ''North'' else if n mod 4 = 1 then ''South''
               else if n mod 4 = 2 then ''East'' else ''West'')"
  using region_of_cases [of n] by (simp add: region_of_def)

lemma map_upt_nth:
  assumes "\<And>j. j < length xs \<Longrightarrow> g j = h (xs ! j)"
  shows "map g [0..<length xs] = map h xs"
proof (rule nth_equalityI)
  show "length (map g [0..<length xs]) = length (map h xs)" by simp
next
  fix i
  assume "i < length (map g [0..<length xs])"
  then have i: "i < length xs" by simp
  from assms [OF i] i show "map g [0..<length xs] ! i = map h xs ! i" by simp
qed

lemma traverse_int: "traverse int_of_cell (map (\<lambda>c. Int_cell (h c)) xs) = Inr (map h xs)"
  by (induction xs) simp_all

lemma traverse_str: "traverse str_of_cell (map (\<lambda>c. Str_cell (h c)) xs) = Inr (map h xs)"
  by (induction xs) simp_all

lemma traverse_real: "traverse real_of_cell (map (\<lambda>c. Float_cell (h c)) xs) = Inr (map h xs)"
  by (induction xs) simp_all

lemma traverse_time: "traverse time_of_cell (map (\<lambda>c. Time_cell (h c)) xs) = Inr (map h xs)"
  by (induction xs) simp_all

lemma region_cell:
  "str_option_of_cell (map_dict region_map (Int_cell (n mod 4))) = Inr (region_of n)"
  by (simp add: map_dict_region region_of_cases del: map_dict.simps)

lemma traverse_map_map:
  "(\<And>x. x \<in> set xs \<Longrightarrow> f (g x) = Inr (h x)) \<Longrightarrow> traverse f (map g xs) = Inr (map h xs)"
  by (induction xs) simp_all

lemma traverse_region:
  "traverse str_option_of_cell (map (\<lambda>c. map_dict region_map (Int_cell (h c mod 4))) xs)
     = Inr (map (\<lambda>c. region_of (h c)) xs)"
  by (rule traverse_map_map) (rule region_cell)

lemma traverse_mod: "traverse (cell_mod 4) (map (\<lambda>c. Int_cell (h c)) xs) = Inr (map (\<lambda>c. Int_cell (h c mod 4)) xs)"
  by (induction xs) simp_all

text \<open>
  On the file of a list of customers, at least one, whose dates exist, the rows that the
  body reads are the rows of the customers with the remapped dates.
\<close>

lemma load_rows_customers:
  assumes present: "fs ''marketing_campaign.csv'' = Some (csv_frame customers)"
    and ne: "customers \<noteq> []"
    and valid: "\<forall>c\<in>set customers. valid_timestamp (csv_Dt_Customer c)"
  shows "load_rows fs =
     Inr ([], Some (map (\<lambda>c. make_row c (remapped (map (year \<circ> csv_Dt_Customer) customers)
                                            (csv_Dt_Customer c))) customers))"
proof -
  let ?dates = "map csv_Dt_Customer customers"
  let ?new = "remapped (map (year \<circ> csv_Dt_Customer) customers)"
  have 1: "map_of (csv_frame customers) ''Dt_Customer'' = Some (map Time_cell ?dates)"
    by (simp add: csv_frame_def comp_def)
  have 2: "?dates \<noteq> []" using ne by simp
  have 3: "\<forall>d\<in>set ?dates. valid_timestamp d" using valid by simp
  have 4: "map_of (csv_frame customers) ''ID'' = Some (map (\<lambda>c. Int_cell (csv_ID c)) customers)"
    by (simp add: csv_frame_def)
  have 5: "map ?new ?dates = map (remapped (map year ?dates)) ?dates" by simp
  have loaded: "load_data fs =
    Inr ([], Some
     [(''ID'', map (\<lambda>c. Int_cell (csv_ID c)) customers),
      (''Age'', map (\<lambda>c. Int_cell (csv_Age c)) customers),
      (''Education'', map (\<lambda>c. Str_cell (csv_Education c)) customers),
      (''Income'', map (\<lambda>c. Float_cell (csv_Income c)) customers),
      (''Dt_Customer'', map (\<lambda>c. Time_cell (?new (csv_Dt_Customer c))) customers),
      (''Autumn Meat Sampler'', map (\<lambda>c. Int_cell (AcceptedCmp3 c)) customers),
      (''Winter Seafood Discount'', map (\<lambda>c. Int_cell (AcceptedCmp4 c)) customers),
      (''Spring Wine Festival'', map (\<lambda>c. Int_cell (AcceptedCmp1 c)) customers),
      (''Summer Fruit Bundle'', map (\<lambda>c. Int_cell (AcceptedCmp2 c)) customers),
      (''Response'', map (\<lambda>c. Int_cell (csv_Response c)) customers),
      (''Year'', map (\<lambda>c. Int_cell (year (?new (csv_Dt_Customer c)))) customers),
      (''Month'', map (\<lambda>c. Int_cell (int (month (?new (csv_Dt_Customer c))))) customers),
      (''Month_Name'',
         map (\<lambda>c. Str_cell (month_name_full (month (?new (csv_Dt_Customer c))))) customers),
      (''Region'', map (\<lambda>c. map_dict region_map (Int_cell (csv_ID c mod 4))) customers)])"
    unfolding load_data_present [of fs "csv_frame customers" ?dates _ _ "map ?new ?dates",
        OF present 1 2 3 4 traverse_mod 5]
    by (simp add: csv_frame_def rename_def rename_column_campaign comp_def)
  have rows: "map (\<lambda>j. \<lparr>ID = map csv_ID customers ! j,
        Education = map csv_Education customers ! j, Age = map csv_Age customers ! j,
        Income = map csv_Income customers ! j, Response = map csv_Response customers ! j,
        Spring_Wine_Festival_col = map AcceptedCmp1 customers ! j,
        Summer_Fruit_Bundle_col = map AcceptedCmp2 customers ! j,
        Autumn_Meat_Sampler_col = map AcceptedCmp3 customers ! j,
        Winter_Seafood_Discount_col = map AcceptedCmp4 customers ! j,
        Dt_Customer = map (\<lambda>c. ?new (csv_Dt_Customer c)) customers ! j,
        Year = map (\<lambda>c. year (?new (csv_Dt_Customer c))) customers ! j,
        Month = nat (map (\<lambda>c. int (month (?new (csv_Dt_Customer c)))) customers ! j),
        Month_Name = map (\<lambda>c. month_name_full (month (?new (csv_Dt_Customer c)))) customers ! j,
        Region = map (\<lambda>c. region_of (csv_ID c)) customers ! j\<rparr>) [0..<length customers]
     = map (\<lambda>c. make_row c (?new (csv_Dt_Customer c))) customers"
    by (rule map_upt_nth) (simp add: make_row_def)
  show ?thesis
    unfolding load_rows_def loaded
    by (simp add: rows_of_def column_as_def get_column_def traverse_int traverse_str
        traverse_real traverse_time traverse_region rows [simplified comp_def] comp_def
        del: map_dict.simps)
qed

lemma traverse_mod_Int: "traverse (cell_mod 4) (map Int_cell ns) = Inr (map (\<lambda>n. Int_cell (n mod 4)) ns)"
  by (induction ns) simp_all

subsection \<open>What \<^verbatim>\<open>load_data\<close> guarantees\<close>

text \<open>
  Claim C2. For a file with a column of customer dates that exist, at least one, and a
  column of integer identifiers, \<^verbatim>\<open>load_data\<close> returns a frame whose date column holds,
  line by line, the customer's date with the year replaced by \<open>2019 + (k mod 5)\<close>, where
  \<open>k\<close> is the position of the original year in the sorted list of the distinct years.
  The new year lies between 2019 and 2023. Month and day are kept, except that February
  29 becomes February 28 when the new year is not a leap year. The columns \<^verbatim>\<open>Year\<close> and
  \<^verbatim>\<open>Month\<close> are read off the new dates.
\<close>

theorem load_data_remaps_years:
  assumes "fs ''marketing_campaign.csv'' = Some t"
    and "map_of t ''Dt_Customer'' = Some (map Time_cell dates)"
    and "dates \<noteq> []"
    and "\<forall>d\<in>set dates. valid_timestamp d"
    and "map_of t ''ID'' = Some (map Int_cell identifiers)"
    and "years = map year dates"
  shows "\<exists>df stored. load_data fs = Inr ([], Some df) \<and>
    map_of df ''Dt_Customer'' = Some (map Time_cell stored) \<and>
    map_of df ''Year'' = Some (map (\<lambda>d. Int_cell (year d)) stored) \<and>
    map_of df ''Month'' = Some (map (\<lambda>d. Int_cell (int (month d))) stored) \<and>
    length stored = length dates \<and>
    (\<forall>i<length dates.
       let old = dates ! i;
           new = stored ! i;
           k = year_rank years (year old)
       in k < length (sort (unique years)) \<and> sort (unique years) ! k = year old \<and>
          year new = 2019 + int (k mod 5) \<and> 2019 \<le> year new \<and> year new \<le> 2023 \<and>
          month new = month old \<and>
          day new = (if month old = 2 \<and> day old = 29 \<and> \<not> isleap (year new)
                     then 28 else day old))"
proof -
  let ?stored = "map (remapped years) dates"
  have s: "?stored = map (remapped (map year dates)) dates"
    by (simp add: assms(6))
  define df where "df = set_column ''Region'' (map (map_dict region_map) (map (\<lambda>n. Int_cell (n mod 4)) identifiers))
           (set_column ''Month_Name'' (map (\<lambda>d. Str_cell (month_name_full (month d))) ?stored)
             (set_column ''Month'' (map (\<lambda>d. Int_cell (int (month d))) ?stored)
               (set_column ''Year'' (map (\<lambda>d. Int_cell (year d)) ?stored)
                 (set_column ''Dt_Customer'' (map Time_cell ?stored)
                   (set_column ''Dt_Customer'' (map Time_cell dates)
                     (rename campaign_mapping t))))))"
  have loaded: "load_data fs = Inr ([], Some df)"
    unfolding df_def
    by (rule load_data_present [of fs t dates "map Int_cell identifiers" _ ?stored,
      OF assms(1-5) traverse_mod_Int s])
  have cols: "map_of df ''Dt_Customer'' = Some (map Time_cell ?stored)"
    "map_of df ''Year'' = Some (map (\<lambda>d. Int_cell (year d)) ?stored)"
    "map_of df ''Month'' = Some (map (\<lambda>d. Int_cell (int (month d))) ?stored)"
    by (simp_all add: df_def map_of_set_column)
  have row: "let old = dates ! i;
           new = ?stored ! i;
           k = year_rank years (year old)
       in k < length (sort (unique years)) \<and> sort (unique years) ! k = year old \<and>
          year new = 2019 + int (k mod 5) \<and> 2019 \<le> year new \<and> year new \<le> 2023 \<and>
          month new = month old \<and>
          day new = (if month old = 2 \<and> day old = 29 \<and> \<not> isleap (year new)
                     then 28 else day old)"
    if "i < length dates" for i
  proof -
    from that have "year (dates ! i) \<in> set years"
      by (simp add: assms(6))
    from year_rank_nth [OF this] that show ?thesis
      by (simp add: Let_def remapped_def)
  qed
  have "\<forall>i<length dates.
       let old = dates ! i;
           new = ?stored ! i;
           k = year_rank years (year old)
       in k < length (sort (unique years)) \<and> sort (unique years) ! k = year old \<and>
          year new = 2019 + int (k mod 5) \<and> 2019 \<le> year new \<and> year new \<le> 2023 \<and>
          month new = month old \<and>
          day new = (if month old = 2 \<and> day old = 29 \<and> \<not> isleap (year new)
                     then 28 else day old)"
    using row by blast
  with loaded cols show ?thesis
    by (intro exI [of _ df] exI [of _ ?stored]) simp
qed

lemma two_customer_valid:
  "\<forall>d\<in>set [midnight 2012 2 29, midnight 2013 7 15]. valid_timestamp d"
  by (simp add: midnight_def valid_timestamp_def Timestamp_def monthrange_def mdays_def
      isleap_def)

lemma two_customer_present:
  "two_customer_file ''marketing_campaign.csv'' = Some (csv_frame two_customer_csv)"
  by (simp add: two_customer_file_def)

lemma two_customer_columns:
  "map_of (csv_frame two_customer_csv) ''Dt_Customer''
     = Some (map Time_cell [midnight 2012 2 29, midnight 2013 7 15])"
  "map_of (csv_frame two_customer_csv) ''ID'' = Some (map Int_cell [0, 1])"
  by (simp_all add: csv_frame_def two_customer_csv_def customer_def)

lemma two_customer_rank:
  "year_rank [2012, 2013] 2012 = 0" "year_rank [2012, 2013] 2013 = 1"
  by (simp_all add: year_rank_def unique_def)

text \<open>
  On the file of two customers, enrolled on 2012-02-29 and 2013-07-15, the dates become
  2019-02-28 and 2020-07-15.
\<close>

theorem load_data_remaps_years_witness:
  "\<exists>df stored. load_data two_customer_file = Inr ([], Some df) \<and>
     map_of (csv_frame two_customer_csv) ''Dt_Customer''
       = Some (map Time_cell [midnight 2012 2 29, midnight 2013 7 15]) \<and>
     map_of df ''Dt_Customer'' = Some (map Time_cell stored) \<and> length stored = 2 \<and>
     year (stored ! 0) = 2019 \<and> month (stored ! 0) = 2 \<and> day (stored ! 0) = 28 \<and>
     year (stored ! 1) = 2020 \<and> month (stored ! 1) = 7 \<and> day (stored ! 1) = 15"
proof -
  let ?dates = "[midnight 2012 2 29, midnight 2013 7 15]"
  have ne: "?dates \<noteq> []" by simp
  have years: "[2012, 2013] = map year ?dates"
    by (simp add: midnight_def)
  from load_data_remaps_years [of two_customer_file "csv_frame two_customer_csv" ?dates
      "[0, 1]" "[2012, 2013]",
      OF two_customer_present two_customer_columns(1) ne two_customer_valid
        two_customer_columns(2) years]
  obtain df stored where df: "load_data two_customer_file = Inr ([], Some df)"
      "map_of df ''Dt_Customer'' = Some (map Time_cell stored)"
      "length stored = length ?dates"
    and rows: "\<forall>i<length ?dates.
       let old = ?dates ! i;
           new = stored ! i;
           k = year_rank [2012, 2013] (year old)
       in k < length (sort (unique [2012, 2013 :: int])) \<and>
          sort (unique [2012, 2013]) ! k = year old \<and>
          year new = 2019 + int (k mod 5) \<and> 2019 \<le> year new \<and> year new \<le> 2023 \<and>
          month new = month old \<and>
          day new = (if month old = 2 \<and> day old = 29 \<and> \<not> isleap (year new)
                     then 28 else day old)"
    by blast
  from rows have "year (stored ! 0) = 2019 \<and> month (stored ! 0) = 2 \<and> day (stored ! 0) = 28"
    by (auto simp: Let_def midnight_def two_customer_rank isleap_def dest!: spec [of _ 0])
  moreover from rows
  have "year (stored ! 1) = 2020 \<and> month (stored ! 1) = 7 \<and> day (stored ! 1) = 15"
    by (auto simp: Let_def midnight_def two_customer_rank dest!: spec [of _ 1])
  ultimately show ?thesis using df two_customer_columns(1)
    by (intro exI [of _ df] exI [of _ stored]) simp
qed

lemma and_thenE:
  assumes "and_then m f = Inr y"
  obtains x where "m = Inr x" and "f x = Inr y"
  using assms by (auto simp: and_then_eq_Inr)

lemma column_as_Inr:
  "column_as f df name = Inr xs \<Longrightarrow>
   \<exists>cells. map_of df name = Some cells \<and> length xs = length cells \<and>
     (\<forall>i<length cells. f (cells ! i) = Inr (xs ! i))"
  by (auto simp: column_as_def and_then_eq_Inr get_column_Inr dest: traverse_Inr)

text \<open>A row that the body reads holds the identifier and the region of its line.\<close>

lemma rows_of_nth:
  assumes "rows_of df = Inr rows" and "j < length rows"
  shows "\<exists>ids regions. map_of df ''ID'' = Some ids \<and> map_of df ''Region'' = Some regions \<and>
     j < length ids \<and> j < length regions \<and>
     int_of_cell (ids ! j) = Inr (ID (rows ! j)) \<and>
     str_option_of_cell (regions ! j) = Inr (Region (rows ! j))"
  using assms(1) [unfolded rows_of_def]
proof (elim and_thenE, goal_cases)
  case (1 ids educations ages incomes responses springs summers autumns winters
      dates years months month_names regions)
  from 1(15) have len: "length regions = length ids"
    and rows: "rows = map (\<lambda>j. \<lparr>ID = ids ! j, Education = educations ! j, Age = ages ! j,
                         Income = incomes ! j, Response = responses ! j,
                         Spring_Wine_Festival_col = springs ! j,
                         Summer_Fruit_Bundle_col = summers ! j,
                         Autumn_Meat_Sampler_col = autumns ! j,
                         Winter_Seafood_Discount_col = winters ! j,
                         Dt_Customer = dates ! j, Year = years ! j, Month = nat (months ! j),
                         Month_Name = month_names ! j, Region = regions ! j\<rparr>)
                 [0..<length ids]"
    by (simp_all split: if_splits)
  from assms(2) have j: "j < length ids" unfolding rows by simp
  then have r: "ID (rows ! j) = ids ! j" "Region (rows ! j) = regions ! j"
    unfolding rows by simp_all
  from column_as_Inr [OF 1(1)] column_as_Inr [OF 1(14)] j len r show ?case
    by auto
qed

text \<open>
  Claim C5. In every frame that \<^verbatim>\<open>load_data\<close> returns, the column \<^verbatim>\<open>Region\<close> is a
  function of the column \<^verbatim>\<open>ID\<close> alone, line by line: \<open>North\<close>, \<open>South\<close>, \<open>East\<close> or
  \<open>West\<close> as the integer identifier is congruent to 0, 1, 2 or 3 modulo 4. So in every row
  that the body reads, the region is the one of these four names that the identifier of
  the row gives, never NaN.
\<close>

theorem region_from_id:
  assumes "load_data fs = Inr (messages, Some df)"
  shows "(\<exists>ids regions. map_of df ''ID'' = Some ids \<and> map_of df ''Region'' = Some regions \<and>
            length regions = length ids \<and>
            (\<forall>i<length ids. \<forall>n. ids ! i = Int_cell n \<longrightarrow>
               regions ! i =
                 Str_cell (if n mod 4 = 0 then ''North'' else if n mod 4 = 1 then ''South''
                           else if n mod 4 = 2 then ''East'' else ''West''))) \<and>
         (\<forall>rows r. rows_of df = Inr rows \<and> r \<in> set rows \<longrightarrow>
            Region r =
              Some (if ID r mod 4 = 0 then ''North'' else if ID r mod 4 = 1 then ''South''
                    else if ID r mod 4 = 2 then ''East'' else ''West'') \<and>
            Region r \<in> {Some ''North'', Some ''South'', Some ''East'', Some ''West''})"
proof -
  from load_data_Some [OF assms] obtain t dates ds ids remainders where
      ids: "map_of (rename campaign_mapping t) ''ID'' = Some ids"
    and rems: "traverse (cell_mod 4) ids = Inr remainders"
    and df: "df = set_column ''Region'' (map (map_dict region_map) remainders)
           (set_column ''Month_Name'' (map (\<lambda>d. Str_cell (month_name_full (month d))) ds)
             (set_column ''Month'' (map (\<lambda>d. Int_cell (int (month d))) ds)
               (set_column ''Year'' (map (\<lambda>d. Int_cell (year d)) ds)
                 (set_column ''Dt_Customer'' (map Time_cell ds)
                   (set_column ''Dt_Customer'' (map Time_cell dates)
                     (rename campaign_mapping t))))))"
    by blast
  let ?regions = "map (map_dict region_map) remainders"
  have c_id: "map_of df ''ID'' = Some ids" and c_region: "map_of df ''Region'' = Some ?regions"
    using ids by (simp_all add: df map_of_set_column)
  note t = traverse_Inr [OF rems]
  have cell: "?regions ! i =
      Str_cell (if n mod 4 = 0 then ''North'' else if n mod 4 = 1 then ''South''
                else if n mod 4 = 2 then ''East'' else ''West'')"
    if "i < length ids" "ids ! i = Int_cell n" for i n
  proof -
    from t that have "remainders ! i = Int_cell (n mod 4)" by auto
    with t that(1) show ?thesis by (simp add: map_dict_region del: map_dict.simps)
  qed
  have typed: "Region r =
              Some (if ID r mod 4 = 0 then ''North'' else if ID r mod 4 = 1 then ''South''
                    else if ID r mod 4 = 2 then ''East'' else ''West'') \<and>
            Region r \<in> {Some ''North'', Some ''South'', Some ''East'', Some ''West''}"
    if "rows_of df = Inr rows" "r \<in> set rows" for rows r
  proof -
    from that(2) obtain j where j: "j < length rows" "r = rows ! j"
      by (auto simp: in_set_conv_nth)
    from rows_of_nth [OF that(1) j(1)] c_id c_region j(2)
    have lt: "j < length ids" and i: "int_of_cell (ids ! j) = Inr (ID r)"
      and s: "str_option_of_cell (?regions ! j) = Inr (Region r)"
      by auto
    from i have "ids ! j = Int_cell (ID r)" by (cases "ids ! j") simp_all
    from cell [OF lt this] s
    have eq: "Region r =
              Some (if ID r mod 4 = 0 then ''North'' else if ID r mod 4 = 1 then ''South''
                    else if ID r mod 4 = 2 then ''East'' else ''West'')"
      by simp
    show ?thesis unfolding eq by auto
  qed
  from c_id c_region t cell typed show ?thesis by (auto simp del: map_dict.simps)
qed

lemma two_customer_loaded: "load_rows two_customer_file = Inr ([], Some two_customer_df)"
proof -
  have ne: "two_customer_csv \<noteq> []" by (simp add: two_customer_csv_def)
  have v: "\<forall>c\<in>set two_customer_csv. valid_timestamp (csv_Dt_Customer c)"
    using two_customer_valid by (simp add: two_customer_csv_def customer_def)
  have y: "map (year \<circ> csv_Dt_Customer) two_customer_csv = [2012, 2013]"
    by (simp add: two_customer_csv_def customer_def midnight_def)
  show ?thesis
    unfolding load_rows_customers [of two_customer_file two_customer_csv, OF two_customer_present ne v] y
    by (simp add: two_customer_csv_def two_customer_df_def customer_def midnight_def
        remapped_def two_customer_rank isleap_def)
qed

lemma one_customer_loaded: "load_rows one_customer_file = Inr ([], Some one_customer_df)"
proof -
  have p: "one_customer_file ''marketing_campaign.csv'' = Some (csv_frame one_customer_csv)"
    by (simp add: one_customer_file_def)
  have ne: "one_customer_csv \<noteq> []" by (simp add: one_customer_csv_def)
  have v: "\<forall>c\<in>set one_customer_csv. valid_timestamp (csv_Dt_Customer c)"
    by (simp add: one_customer_csv_def customer_def midnight_def valid_timestamp_def
        Timestamp_def monthrange_def mdays_def)
  have y: "map (year \<circ> csv_Dt_Customer) one_customer_csv = [2013]"
    by (simp add: one_customer_csv_def customer_def midnight_def)
  have r: "year_rank [2013] 2013 = 0"
    by (simp add: year_rank_def unique_def)
  show ?thesis
    unfolding load_rows_customers [of one_customer_file one_customer_csv, OF p ne v] y
    by (simp add: one_customer_csv_def one_customer_df_def customer_def midnight_def
        remapped_def r isleap_def)
qed

lemma load_rows_Some:
  "load_rows fs = Inr (messages, Some rows) \<Longrightarrow>
   \<exists>df. load_data fs = Inr (messages, Some df) \<and> rows_of df = Inr rows"
  by (auto simp: load_rows_def and_then_eq_Inr split: option.splits)

theorem region_from_id_witness:
  "load_rows two_customer_file = Inr ([], Some two_customer_df) \<and>
   map ID two_customer_df = [0, 1] \<and>
   map Region two_customer_df = [Some ''North'', Some ''South'']"
proof -
  from load_rows_Some [OF two_customer_loaded] obtain df
    where df: "load_data two_customer_file = Inr ([], Some df)"
      and rows: "rows_of df = Inr two_customer_df"
    by blast
  have in0: "two_customer_df ! 0 \<in> set two_customer_df"
    and in1: "two_customer_df ! 1 \<in> set two_customer_df"
    by (simp_all add: two_customer_df_def)
  have ids: "map ID two_customer_df = [0, 1]"
    by (simp add: two_customer_df_def make_row_def customer_def)
  then have "ID (two_customer_df ! 0) = 0" "ID (two_customer_df ! 1) = 1"
    by (simp_all add: two_customer_df_def)
  with region_from_id [OF df] rows in0 in1
  have "Region (two_customer_df ! 0) = Some ''North''"
    "Region (two_customer_df ! 1) = Some ''South''"
    by (auto simp del: map_dict.simps)
  then have "map Region two_customer_df = [Some ''North'', Some ''South'']"
    by (simp add: two_customer_df_def)
  with ids two_customer_loaded show ?thesis by simp
qed

lemma set_column_nth_fst:
  "i < length df \<Longrightarrow> fst (set_column name vals df ! i) = fst (df ! i)"
  by (simp add: nth_set_column)

lemma set_column_nth_snd:
  "i < length df \<Longrightarrow> fst (df ! i) \<noteq> name \<Longrightarrow> snd (set_column name vals df ! i) = snd (df ! i)"
  by (simp add: nth_set_column)

lemma set_column_less: "i < length df \<Longrightarrow> i < length (set_column name vals df)"
  using length_set_column [of df name vals] by simp

text \<open>
  Claim C7. The renaming in \<^verbatim>\<open>load_data\<close> gives the four columns \<open>AcceptedCmp1\<close> to
  \<open>AcceptedCmp4\<close> the four campaign names, in this order, leaves the name of any other
  column as it was, and keeps the values of every column. In the frame that \<^verbatim>\<open>load_data\<close>
  returns, every column of the file stands where it stood, under the name the renaming
  gave it, and with the values of the file, apart from the date column and columns named
  \<^verbatim>\<open>Year\<close>, \<^verbatim>\<open>Month\<close>, \<^verbatim>\<open>Month_Name\<close> or \<^verbatim>\<open>Region\<close>, which the later steps write.
\<close>

theorem load_data_renames_campaigns:
  assumes "fs ''marketing_campaign.csv'' = Some t"
    and "load_data fs = Inr (messages, Some df)"
  shows "map fst (rename campaign_mapping t) =
           map (\<lambda>name.
             if name = ''AcceptedCmp1'' then ''Spring Wine Festival''
             else if name = ''AcceptedCmp2'' then ''Summer Fruit Bundle''
             else if name = ''AcceptedCmp3'' then ''Autumn Meat Sampler''
             else if name = ''AcceptedCmp4'' then ''Winter Seafood Discount''
             else name) (map fst t) \<and>
         map snd (rename campaign_mapping t) = map snd t \<and>
         length t \<le> length df \<and>
         (\<forall>i<length t.
            fst (df ! i) =
              (if fst (t ! i) = ''AcceptedCmp1'' then ''Spring Wine Festival''
               else if fst (t ! i) = ''AcceptedCmp2'' then ''Summer Fruit Bundle''
               else if fst (t ! i) = ''AcceptedCmp3'' then ''Autumn Meat Sampler''
               else if fst (t ! i) = ''AcceptedCmp4'' then ''Winter Seafood Discount''
               else fst (t ! i)) \<and>
            (fst (t ! i) \<notin> {''Dt_Customer'', ''Year'', ''Month'', ''Month_Name'', ''Region''} \<longrightarrow>
               snd (df ! i) = snd (t ! i)))"
proof -
  let ?r = "rename campaign_mapping t"
  from load_data_Some [OF assms(2)] assms(1) obtain dates ds remainders where
    df: "df = set_column ''Region'' (map (map_dict region_map) remainders)
           (set_column ''Month_Name'' (map (\<lambda>d. Str_cell (month_name_full (month d))) ds)
             (set_column ''Month'' (map (\<lambda>d. Int_cell (int (month d))) ds)
               (set_column ''Year'' (map (\<lambda>d. Int_cell (year d)) ds)
                 (set_column ''Dt_Customer'' (map Time_cell ds)
                   (set_column ''Dt_Customer'' (map Time_cell dates) ?r)))))"
    by auto
  have names: "map fst ?r =
           map (\<lambda>name.
             if name = ''AcceptedCmp1'' then ''Spring Wine Festival''
             else if name = ''AcceptedCmp2'' then ''Summer Fruit Bundle''
             else if name = ''AcceptedCmp3'' then ''Autumn Meat Sampler''
             else if name = ''AcceptedCmp4'' then ''Winter Seafood Discount''
             else name) (map fst t)"
    and vals: "map snd ?r = map snd t"
    by (simp_all add: rename_def rename_column_campaign case_prod_beta comp_def)
  have len: "length ?r = length t" by (simp add: rename_def)
  have "length ?r \<le> length df"
    unfolding df by (intro order_trans [OF _ length_set_column]) simp
  with len have le: "length t \<le> length df" by simp
  have col: "fst (df ! i) = rename_column campaign_mapping (fst (t ! i)) \<and>
      (fst (t ! i) \<notin> {''Dt_Customer'', ''Year'', ''Month'', ''Month_Name'', ''Region''} \<longrightarrow>
         snd (df ! i) = snd (t ! i))" if "i < length t" for i
  proof -
    from that len have i: "i < length ?r" by simp
    have r: "?r ! i = (rename_column campaign_mapping (fst (t ! i)), snd (t ! i))"
      using that by (rule nth_rename)
    have name: "fst (df ! i) = rename_column campaign_mapping (fst (t ! i))"
      unfolding df using i r by (simp add: set_column_nth_fst set_column_less)
    have "snd (df ! i) = snd (t ! i)"
      if "fst (t ! i) \<notin> {''Dt_Customer'', ''Year'', ''Month'', ''Month_Name'', ''Region''}"
    proof -
      from that have "rename_column campaign_mapping (fst (t ! i))
          \<notin> {''Dt_Customer'', ''Year'', ''Month'', ''Month_Name'', ''Region''}"
        by (simp add: rename_column_campaign)
      with i r show ?thesis
        unfolding df by (simp add: set_column_nth_fst set_column_nth_snd set_column_less)
    qed
    with name show ?thesis by blast
  qed
  from names vals le col show ?thesis
    by (simp add: rename_column_campaign)
qed

lemma campaigns_valid: "\<forall>d\<in>set [midnight 2014 1 31]. valid_timestamp d"
  by (simp add: midnight_def valid_timestamp_def Timestamp_def monthrange_def mdays_def)

lemma campaigns_loaded: "\<exists>df. load_data campaigns_file = Inr ([], Some df)"
proof -
  have p: "campaigns_file ''marketing_campaign.csv'' = Some campaigns_frame"
    by (simp add: campaigns_file_def)
  have d: "map_of campaigns_frame ''Dt_Customer'' = Some (map Time_cell [midnight 2014 1 31])"
    and i: "map_of campaigns_frame ''ID'' = Some (map Int_cell [7])"
    by (simp_all add: campaigns_frame_def)
  have ne: "[midnight 2014 1 31] \<noteq> []" by simp
  from load_data_present [of campaigns_file campaigns_frame "[midnight 2014 1 31]"
      "map Int_cell [7]", OF p d ne campaigns_valid i traverse_mod_Int refl]
  show ?thesis by blast
qed

theorem load_data_renames_campaigns_witness:
  "\<exists>df. load_data campaigns_file = Inr ([], Some df) \<and>
     campaigns_frame ! 1 = (''AcceptedCmp3'', [Int_cell 1]) \<and>
     df ! 1 = (''Autumn Meat Sampler'', [Int_cell 1]) \<and>
     campaigns_frame ! 4 = (''AcceptedCmp2'', [Int_cell 1]) \<and>
     df ! 4 = (''Summer Fruit Bundle'', [Int_cell 1]) \<and>
     campaigns_frame ! 6 = (''Marital_Status'', [Str_cell ''Single'']) \<and>
     df ! 6 = (''Marital_Status'', [Str_cell ''Single''])"
proof -
  from campaigns_loaded obtain df where df: "load_data campaigns_file = Inr ([], Some df)"
    by blast
  have p: "campaigns_file ''marketing_campaign.csv'' = Some campaigns_frame"
    by (simp add: campaigns_file_def)
  have c: "campaigns_frame ! 1 = (''AcceptedCmp3'', [Int_cell 1])"
    "campaigns_frame ! 4 = (''AcceptedCmp2'', [Int_cell 1])"
    "campaigns_frame ! 6 = (''Marital_Status'', [Str_cell ''Single''])"
    and len: "length campaigns_frame = 7"
    by (simp_all add: campaigns_frame_def)
  note th = load_data_renames_campaigns [OF p df, THEN conjunct2, THEN conjunct2, THEN conjunct2,
      rule_format]
  from th [of 1] th [of 4] th [of 6] c len
  have "df ! 1 = (''Autumn Meat Sampler'', [Int_cell 1])"
    "df ! 4 = (''Summer Fruit Bundle'', [Int_cell 1])"
    "df ! 6 = (''Marital_Status'', [Str_cell ''Single''])"
    by (simp_all add: prod_eq_iff)
  with df c show ?thesis by blast
qed

text \<open>
  Claim C8 says that \<^verbatim>\<open>load_data\<close> returns a data frame whenever the file exists. On a
  file with a header and no line the list \<^verbatim>\<open>new_dates\<close> is empty, the column assigned
  from it holds no timestamps, and the accessor \<^verbatim>\<open>.dt\<close> of line 82 raises
  \<^verbatim>\<open>AttributeError\<close>: nothing is returned.
\<close>

theorem load_data_always_frame_counterexample:
  "header_only_file ''marketing_campaign.csv'' \<noteq> None \<and>
   load_data header_only_file = Inl AttributeError"
  by (simp add: header_only_file_def load_data_def os_path_exists_def read_csv_def csv_frame_def
      rename_def rename_column_campaign get_column_def to_datetime_def dt_def year_mapping_def
      unique_def)

lemma load_data_no_lines:
  assumes "fs ''marketing_campaign.csv'' = Some t" and "map_of t ''Dt_Customer'' = Some []"
  shows "load_data fs = Inl AttributeError"
proof -
  from assms(2) have "t \<noteq> []" by auto
  with assms(1) have read: "read_csv fs ''marketing_campaign.csv'' = Inr t"
    by (simp add: read_csv_def)
  have "get_column (rename campaign_mapping t) ''Dt_Customer'' = Inr []"
    using assms(2) by (simp add: get_column_Inr map_of_rename_campaign)
  with assms(1) read show ?thesis
    by (simp add: load_data_def os_path_exists_def Let_def to_datetime_def
        get_column_set_column dt_def)
qed

lemma load_data_no_dates:
  assumes "fs ''marketing_campaign.csv'' = Some t" and "t \<noteq> []"
    and "map_of t ''Dt_Customer'' = None"
  shows "load_data fs = Inl KeyError"
proof -
  from assms have read: "read_csv fs ''marketing_campaign.csv'' = Inr t"
    by (simp add: read_csv_def)
  have "get_column (rename campaign_mapping t) ''Dt_Customer'' = Inl KeyError"
    using assms(3) by (simp add: get_column_def map_of_rename_campaign)
  with assms(1) read show ?thesis
    by (simp add: load_data_def os_path_exists_def Let_def)
qed

text \<open>
  Claim C8, amended. \<^verbatim>\<open>load_data\<close> returns \<^verbatim>\<open>None\<close> exactly when there is no file
  \<^verbatim>\<open>marketing_campaign.csv\<close>, and then it reports the error message. When the file is
  there it returns a frame, and reports nothing, if the file has a column of dates that
  exist, at least one, and a column of integer identifiers; on a file with a date column
  and no line it raises \<^verbatim>\<open>AttributeError\<close>, on a file without a date column
  \<^verbatim>\<open>KeyError\<close>. Whenever it returns \<^verbatim>\<open>None\<close>, the script ends with the messages of
  \<^verbatim>\<open>load_data\<close> and no dashboard: nothing is filtered, aggregated or plotted.
\<close>

theorem load_data_None_iff:
  "((\<exists>messages. load_data fs = Inr (messages, None)) \<longleftrightarrow>
      fs ''marketing_campaign.csv'' = None) \<and>
   (fs ''marketing_campaign.csv'' = None \<longrightarrow>
      load_data fs = Inr ([''marketing_campaign.csv file not found.''], None)) \<and>
   (\<forall>t dates identifiers.
      fs ''marketing_campaign.csv'' = Some t \<and>
      map_of t ''Dt_Customer'' = Some (map Time_cell dates) \<and> dates \<noteq> [] \<and>
      (\<forall>d\<in>set dates. valid_timestamp d) \<and>
      map_of t ''ID'' = Some (map Int_cell identifiers) \<longrightarrow>
      (\<exists>df. load_data fs = Inr ([], Some df))) \<and>
   (\<forall>t. fs ''marketing_campaign.csv'' = Some t \<and> map_of t ''Dt_Customer'' = Some [] \<longrightarrow>
      load_data fs = Inl AttributeError) \<and>
   (\<forall>t. fs ''marketing_campaign.csv'' = Some t \<and> t \<noteq> [] \<and>
        map_of t ''Dt_Customer'' = None \<longrightarrow>
      load_data fs = Inl KeyError) \<and>
   (\<forall>messages. load_data fs = Inr (messages, None) \<longrightarrow>
      script fs selected_education selected_region = Inr (messages, None))"
proof (intro conjI allI impI)
  show "(\<exists>messages. load_data fs = Inr (messages, None)) \<longleftrightarrow>
      fs ''marketing_campaign.csv'' = None"
    using load_data_None_absent load_data_absent by blast
next
  assume "fs ''marketing_campaign.csv'' = None"
  then show "load_data fs = Inr ([''marketing_campaign.csv file not found.''], None)"
    by (rule load_data_absent)
next
  fix t dates identifiers
  assume a: "fs ''marketing_campaign.csv'' = Some t \<and>
      map_of t ''Dt_Customer'' = Some (map Time_cell dates) \<and> dates \<noteq> [] \<and>
      (\<forall>d\<in>set dates. valid_timestamp d) \<and>
      map_of t ''ID'' = Some (map Int_cell identifiers)"
  from load_data_present [of fs t dates "map Int_cell identifiers", OF _ _ _ _ _ traverse_mod_Int refl] a
  show "\<exists>df. load_data fs = Inr ([], Some df)"
    by blast
next
  fix t
  assume "fs ''marketing_campaign.csv'' = Some t \<and> map_of t ''Dt_Customer'' = Some []"
  then show "load_data fs = Inl AttributeError"
    using load_data_no_lines [of fs t] by blast
next
  fix t
  assume "fs ''marketing_campaign.csv'' = Some t \<and> t \<noteq> [] \<and> map_of t ''Dt_Customer'' = None"
  then show "load_data fs = Inl KeyError"
    using load_data_no_dates [of fs t] by blast
next
  fix messages
  assume "load_data fs = Inr (messages, None)"
  then show "script fs selected_education selected_region = Inr (messages, None)"
    by (simp add: script_def)
qed

theorem load_data_None_iff_witness:
  "load_data Map.empty = Inr ([''marketing_campaign.csv file not found.''], None) \<and>
   script Map.empty [''PhD''] ''North''
     = Inr ([''marketing_campaign.csv file not found.''], None) \<and>
   (\<exists>df. load_data two_customer_file = Inr ([], Some df)) \<and>
   load_data header_only_file = Inl AttributeError \<and>
   load_data [''marketing_campaign.csv'' \<mapsto> [(''ID'', [Int_cell 1])]] = Inl KeyError"
proof -
  note a = load_data_None_iff [of Map.empty "[''PhD'']" "''North''"]
  note b = load_data_None_iff [of two_customer_file "[]" "''North''"]
  note c = load_data_None_iff [of header_only_file "[]" "''North''"]
  note d = load_data_None_iff [of "[''marketing_campaign.csv'' \<mapsto> [(''ID'', [Int_cell 1])]]"
      "[]" "''North''"]
  from a have 1: "load_data Map.empty = Inr ([''marketing_campaign.csv file not found.''], None)"
    by simp
  with a have 2: "script Map.empty [''PhD''] ''North''
      = Inr ([''marketing_campaign.csv file not found.''], None)"
    by blast
  from b two_customer_present two_customer_columns two_customer_valid
  have 3: "\<exists>df. load_data two_customer_file = Inr ([], Some df)"
    by blast
  have "header_only_file ''marketing_campaign.csv'' = Some (csv_frame [])"
    "map_of (csv_frame []) ''Dt_Customer'' = Some []"
    by (simp_all add: header_only_file_def csv_frame_def)
  with c have 4: "load_data header_only_file = Inl AttributeError" by blast
  from d have 5: "load_data [''marketing_campaign.csv'' \<mapsto> [(''ID'', [Int_cell 1])]] = Inl KeyError"
    by simp
  from 1 2 3 4 5 show ?thesis by blast
qed

section \<open>The body of the script\<close>

subsection \<open>The two filters\<close>

text \<open>
  Claim C6. With a nonempty education selection, the filtered frame holds exactly the rows
  whose education is selected when the region is \<open>All Regions\<close>, and exactly the rows
  whose education is selected and whose region is the selected one otherwise; the rows
  keep their order.
\<close>

theorem filtered_df_selection:
  "selected_education \<noteq> [] \<Longrightarrow>
   filtered_df df selected_education selected_region =
     (if selected_region = ''All Regions''
      then filter (\<lambda>r. Education r \<in> set selected_education) df
      else filter (\<lambda>r. Education r \<in> set selected_education \<and>
                       Region r = Some selected_region) df)"
  by (auto simp: filtered_df_def Let_def intro: filter_cong)

theorem filtered_df_selection_witness:
  "filtered_df two_customer_df [''PhD'', ''Master''] ''South'' = [two_customer_df ! 1] \<and>
   filtered_df two_customer_df [''PhD''] ''All Regions'' = [two_customer_df ! 0]"
proof -
  have ne: "[''PhD'', ''Master''] \<noteq> ([] :: string list)" "[''PhD''] \<noteq> ([] :: string list)"
    by simp_all
  from filtered_df_selection [OF ne(1), of two_customer_df "''South''"]
  have "filtered_df two_customer_df [''PhD'', ''Master''] ''South'' = [two_customer_df ! 1]"
    by (simp add: two_customer_df_def make_row_def customer_def region_of_def region_map_def)
  moreover from filtered_df_selection [OF ne(2), of two_customer_df "''All Regions''"]
  have "filtered_df two_customer_df [''PhD''] ''All Regions'' = [two_customer_df ! 0]"
    by (simp add: two_customer_df_def make_row_def customer_def)
  ultimately show ?thesis by simp
qed

text \<open>
  Claim C9 says that with an empty education selection the filtered frame holds every row
  of the loaded frame. The region filter runs after the education filter, whatever the
  education selection was: of the two customers, the empty selection together with the
  region \<open>North\<close> leaves only the first.
\<close>

theorem filtered_df_empty_selection_counterexample:
  "filtered_df two_customer_df [] ''North'' \<noteq> two_customer_df"
  by (simp add: filtered_df_def two_customer_df_def make_row_def customer_def region_of_def
      region_map_def)

text \<open>
  Claim C9, amended. With an empty education selection no education filter is applied:
  the filtered frame is the whole loaded frame when the region is \<open>All Regions\<close>, and
  otherwise it holds exactly the rows of the selected region, whatever their education.
  It is not the empty frame that membership in the empty selection would give.
\<close>

theorem filtered_df_empty_selection:
  "filtered_df df [] selected_region =
     (if selected_region = ''All Regions'' then df
      else filter (\<lambda>r. Region r = Some selected_region) df)"
  by (simp add: filtered_df_def)

theorem filtered_df_empty_selection_witness:
  "filtered_df two_customer_df [] ''All Regions'' = two_customer_df \<and>
   filtered_df two_customer_df [] ''North'' = [two_customer_df ! 0]"
proof -
  from filtered_df_empty_selection [of two_customer_df "''All Regions''"]
  have "filtered_df two_customer_df [] ''All Regions'' = two_customer_df" by simp
  moreover from filtered_df_empty_selection [of two_customer_df "''North''"]
  have "filtered_df two_customer_df [] ''North'' = [two_customer_df ! 0]"
    by (simp add: two_customer_df_def make_row_def customer_def region_of_def region_map_def)
  ultimately show ?thesis by simp
qed

subsection \<open>The overall response rate\<close>

lemma sum_binary_count:
  "\<forall>r\<in>set fdf. Response r = 0 \<or> Response r = 1 \<Longrightarrow>
   sum_list (map (\<lambda>r. real_of_int (Response r)) fdf)
     = real (length (filter (\<lambda>r. Response r = 1) fdf))"
  by (induction fdf) auto

text \<open>
  Claim C4. On a nonempty filtered frame whose responses are all 0 or 1, the overall
  response rate is a number, 100 times the count of the rows with response 1 divided by
  the count of all rows.
\<close>

theorem response_rate_kpi:
  assumes "fdf \<noteq> []" and "\<forall>r\<in>set fdf. Response r = 0 \<or> Response r = 1"
  shows "response_rate fdf =
    Some (100 * real (length (filter (\<lambda>r. Response r = 1) fdf)) / real (length fdf))"
  using assms by (simp add: response_rate_def mean_def sum_binary_count)

theorem response_rate_kpi_witness:
  "two_customer_df \<noteq> [] \<and> map Response two_customer_df = [1, 0] \<and>
   response_rate two_customer_df = Some 50"
proof -
  have ne: "two_customer_df \<noteq> []" by (simp add: two_customer_df_def)
  have resp: "map Response two_customer_df = [1, 0]"
    by (simp add: two_customer_df_def make_row_def customer_def)
  then have bin: "\<forall>r\<in>set two_customer_df. Response r = 0 \<or> Response r = 1"
    by (simp add: two_customer_df_def)
  have cnt: "length (filter (\<lambda>r. Response r = 1) two_customer_df) = 1"
    "length two_customer_df = 2"
    by (simp_all add: two_customer_df_def make_row_def customer_def)
  from response_rate_kpi [OF ne bin] have "response_rate two_customer_df = Some 50"
    by (simp add: cnt)
  with ne resp show ?thesis by simp
qed

subsection \<open>Age groups\<close>

lemma Age_Group_cases:
  "Age_Group r =
     (if 20 \<le> Age r \<and> Age r < 35 then Some ''20-34''
      else if 35 \<le> Age r \<and> Age r < 50 then Some ''35-49''
      else if 50 \<le> Age r \<and> Age r < 65 then Some ''50-64''
      else if 65 \<le> Age r \<and> Age r < 90 then Some ''65+''
      else None)"
  by (simp add: Age_Group_def age_bins_def age_labels_def)

lemma Age_Group_in_range: "Age_Group r = Some l \<Longrightarrow> 20 \<le> Age r \<and> Age r < 90"
  by (auto simp: Age_Group_cases split: if_splits)

lemma age_response_in_range:
  "age_response fdf = age_response (filter (\<lambda>r. 20 \<le> Age r \<and> Age r < 90) fdf)"
proof -
  have "filter (\<lambda>r. Age_Group r = Some l) (filter (\<lambda>r. 20 \<le> Age r \<and> Age r < 90) fdf)
        = filter (\<lambda>r. Age_Group r = Some l) fdf" for l
    by (auto dest: Age_Group_in_range intro!: filter_cong)
  then show ?thesis by (simp add: age_response_def)
qed

text \<open>
  Claim C10. The age group of a row is \<open>20-34\<close>, \<open>35-49\<close>, \<open>50-64\<close> or \<open>65+\<close> exactly when
  the age lies in \<open>[20,35)\<close>, \<open>[35,50)\<close>, \<open>[50,65)\<close> or \<open>[65,90)\<close>; so \<open>65+\<close> covers the
  ages 65 to 89 only. A row whose age is below 20, or 90 and above, has no age group, and
  the aggregation by age group is the same with and without such rows.
\<close>

theorem age_groups_half_open:
  "(Age_Group r = Some ''20-34'' \<longleftrightarrow> 20 \<le> Age r \<and> Age r < 35) \<and>
   (Age_Group r = Some ''35-49'' \<longleftrightarrow> 35 \<le> Age r \<and> Age r < 50) \<and>
   (Age_Group r = Some ''50-64'' \<longleftrightarrow> 50 \<le> Age r \<and> Age r < 65) \<and>
   (Age_Group r = Some ''65+'' \<longleftrightarrow> 65 \<le> Age r \<and> Age r < 90) \<and>
   (Age_Group r = None \<longleftrightarrow> Age r < 20 \<or> 90 \<le> Age r) \<and>
   age_response fdf = age_response (filter (\<lambda>r. 20 \<le> Age r \<and> Age r < 90) fdf)"
  using age_response_in_range [of fdf] by (auto simp: Age_Group_cases)

theorem age_groups_half_open_witness:
  "map Age two_customer_df = [40, 95] \<and>
   map Age_Group two_customer_df = [Some ''35-49'', None] \<and>
   age_response two_customer_df = age_response [hd two_customer_df]"
proof -
  have ages: "map Age two_customer_df = [40, 95]"
    by (simp add: two_customer_df_def make_row_def customer_def)
  then have a: "Age (two_customer_df ! 0) = 40" "Age (two_customer_df ! 1) = 95"
    by (simp_all add: two_customer_df_def)
  from age_groups_half_open [of "two_customer_df ! 0" two_customer_df] a(1)
  have g0: "Age_Group (two_customer_df ! 0) = Some ''35-49''" by simp
  from age_groups_half_open [of "two_customer_df ! 1" two_customer_df] a(2)
  have g1: "Age_Group (two_customer_df ! 1) = None" by simp
  have "filter (\<lambda>r. 20 \<le> Age r \<and> Age r < 90) two_customer_df = [hd two_customer_df]"
    by (simp add: two_customer_df_def make_row_def customer_def)
  with age_groups_half_open [of "two_customer_df ! 0" two_customer_df]
  have "age_response two_customer_df = age_response [hd two_customer_df]" by simp
  with ages g0 g1 show ?thesis by (simp add: two_customer_df_def)
qed

subsection \<open>The synthetic years\<close>

text \<open>The loop appends one line per missing year and changes no line that was there.\<close>

lemma fold_append_rows:
  "fold (\<lambda>y acc. acc @ [f y]) ys acc = acc @ map f ys"
  by (induction ys arbitrary: acc) simp_all

lemma fill_missing_years_closed:
  "fill_missing_years yt =
     (if length (existing_years yt) < 6 then yt @ map (new_row yt) (missing_years yt) else yt)"
  by (simp add: fill_missing_years_def fold_append_rows)

text \<open>
  The clamp \<^verbatim>\<open>max(mn, min(value, mx))\<close> keeps a value between the bounds when the lower
  bound is not above the upper one; otherwise it returns the lower bound, which then lies
  above the upper one.
\<close>

lemma generated_rate_in_envelope:
  "mn \<le> mx \<Longrightarrow> mn \<le> generated_rate c y mn b mx \<and> generated_rate c y mn b mx \<le> mx"
  by (simp add: generated_rate_def)

lemma generated_rate_inverted:
  "mx < mn \<Longrightarrow> generated_rate c y mn b mx = mn"
  by (simp add: generated_rate_def)

lemma yearly_trends_one_customer:
  "yearly_trends one_customer_df = [(2019, \<lambda>c. if c = Spring_Wine_Festival then 1 else 0)]"
proof -
  have "group_mean [real_of_int (campaign_col c (make_row (customer 0 ''PhD'' 40 1 1
          (midnight 2013 5 1)) (midnight 2019 5 1)))]
        = (if c = Spring_Wine_Festival then 1 else 0)" for c
    by (cases c) (simp_all add: group_mean_def make_row_def customer_def)
  then show ?thesis
    by (simp add: yearly_trends_def one_customer_df_def unique_def make_row_def midnight_def)
qed

lemma script_load_rows:
  "load_rows fs = Inr (messages, Some rows) \<Longrightarrow>
   script fs selected_education selected_region
     = Inr (messages, Some (render rows selected_education selected_region))"
  by (auto simp: load_rows_def script_def and_then_eq_Inr split: option.splits)

lemma one_customer_script:
  "script one_customer_file [''PhD''] ''All Regions''
     = Inr ([], Some (render one_customer_df [''PhD''] ''All Regions''))"
  using one_customer_loaded by (rule script_load_rows)

text \<open>
  Claim C1 says that every generated rate lies between \<^verbatim>\<open>min_rates[campaign]\<close> and
  \<^verbatim>\<open>max_rates[campaign]\<close>. The upper bound is capped at 0.35 and the lower bound is not,
  so a campaign that at least 39 percent of the customers of every observed year accepted
  has its lower bound above its upper bound. On the file of one customer, who accepted
  the first campaign, the observed rate of 2019 is 1, the bounds are 0.9 and 0.35, and the
  rate generated for each of the years 2020 to 2024 is 0.9: above the upper bound, and
  above the cap of 35 percent that the comment on \<^verbatim>\<open>max_rates\<close> sets. The rows are
  the ones that the script reads from the file, and the table is the one it plots.
\<close>

theorem spring_rate_exceeds_cap:
  "load_rows one_customer_file = Inr ([], Some one_customer_df) \<and>
   script one_customer_file [''PhD''] ''All Regions''
     = Inr ([], Some (render one_customer_df [''PhD''] ''All Regions'')) \<and>
   filtered_df one_customer_df [''PhD''] ''All Regions'' = one_customer_df \<and>
   min_rates (yearly_trends one_customer_df) Spring_Wine_Festival = 9 / 10 \<and>
   max_rates (yearly_trends one_customer_df) Spring_Wine_Festival = 35 / 100 \<and>
   map (\<lambda>t. (fst t, snd t Spring_Wine_Festival))
     (fig3_data (render one_customer_df [''PhD''] ''All Regions''))
   = [(2019, 1), (2020, 9 / 10), (2021, 9 / 10), (2022, 9 / 10), (2023, 9 / 10),
      (2024, 9 / 10)]"
proof -
  let ?yt = "[(2019 :: int, \<lambda>c. if c = Spring_Wine_Festival then 1 else 0 :: real)]"
  have fdf: "filtered_df one_customer_df [''PhD''] ''All Regions'' = one_customer_df"
    by (simp add: filtered_df_def one_customer_df_def make_row_def customer_def)
  have mn: "min_rates ?yt Spring_Wine_Festival = 9 / 10"
    by (simp add: min_rates_def)
  have mx: "max_rates ?yt Spring_Wine_Festival = 35 / 100"
    by (simp add: max_rates_def)
  have my: "missing_years ?yt = [2020, 2021, 2022, 2023, 2024]"
    by (simp add: missing_years_def existing_years_def unique_def all_years_def)
  have ex: "length (existing_years ?yt) < 6"
    by (simp add: existing_years_def unique_def)
  have nr: "snd (new_row ?yt y) Spring_Wine_Festival = 9 / 10" for y
    by (simp add: new_row_def mn mx generated_rate_inverted)
  have fst_nr: "fst (new_row yt y) = y" for yt y
    by (simp add: new_row_def)
  have "map (\<lambda>t. (fst t, snd t Spring_Wine_Festival))
     (fig3_data (render one_customer_df [''PhD''] ''All Regions''))
   = [(2019, 1), (2020, 9 / 10), (2021, 9 / 10), (2022, 9 / 10), (2023, 9 / 10),
      (2024, 9 / 10)]"
    unfolding Let_def render_def fdf yearly_trends_one_customer fill_missing_years_closed
    using ex by (simp add: my nr fst_nr)
  with one_customer_loaded one_customer_script fdf mn mx show ?thesis
    by (simp only: yearly_trends_one_customer simp_thms)
qed

lemma length_unique: "length (unique xs) = card (set xs)"
  using distinct_card [of "unique xs"] by simp

lemma sin_5over2_pi: "sin (5 / 2 * pi) = 1"
proof -
  have "sin (5 / 2 * pi) = sin (pi / 2 + 2 * pi)" by (simp add: field_simps)
  also have "\<dots> = 1" by (simp only: sin_periodic sin_pi_half)
  finally show ?thesis .
qed

text \<open>The sine wave of the second campaign at the six years of the chart.\<close>

lemma summer_wave:
  assumes "y \<in> set all_years"
  shows "sin (real_of_int (y - 2019) / 2 * pi) =
     (if y = 2020 \<or> y = 2024 then 1 else if y = 2022 then - 1 else 0)"
proof -
  from assms consider "y = 2019" | "y = 2020" | "y = 2021" | "y = 2022" | "y = 2023" | "y = 2024"
    by (auto simp: all_years_def)
  then show ?thesis
  proof cases
    case 4
    have "sin (3 / 2 * pi) = - 1" by (rule sin_3over2_pi)
    with 4 show ?thesis by simp
  next
    case 6
    with sin_5over2_pi show ?thesis by simp
  qed simp_all
qed

lemma generated_rate_closed:
  assumes "y \<in> set all_years"
  shows "generated_rate c y mn b mx =
     max mn (min
       (case c of
          Spring_Wine_Festival \<Rightarrow>
            if y < 2021 then mn + real_of_int (y - 2019) * (b - mn) / 3
            else b + real_of_int (y - 2021) * (mx - b) / 4
        | Summer_Fruit_Bundle \<Rightarrow>
            b + (if y = 2020 \<or> y = 2024 then 1 else if y = 2022 then - 1 else 0) * (mx - mn) / 6
        | Autumn_Meat_Sampler \<Rightarrow> mn + real_of_int (y - 2019) * (mx - mn) * 4 / 25
        | Winter_Seafood_Discount \<Rightarrow>
            if y < 2021 then mn + real_of_int (y - 2019) * (mx - mn) / 2
            else if y < 2023 then mx - real_of_int (y - 2021) * (mx - mn) / 3
            else mn + real_of_int (y - 2023) * (b - mn) / 2) mx)"
proof (cases c)
  case Summer_Fruit_Bundle
  have "trend_value Summer_Fruit_Bundle y mn b mx
      = b + (1 / 2) * sin (real_of_int (y - 2019) / 2 * pi) * (mx - mn) / 3"
    by (simp only: trend_value.simps Let_def)
  also have "\<dots> = b + (1 / 2)
      * (if y = 2020 \<or> y = 2024 then 1 else if y = 2022 then - 1 else 0) * (mx - mn) / 3"
    by (simp only: summer_wave [OF assms])
  also have "\<dots> = b + (if y = 2020 \<or> y = 2024 then 1 else if y = 2022 then - 1 else 0)
      * (mx - mn) / 6"
    by simp
  finally show ?thesis
    by (simp only: generated_rate_def Summer_Fruit_Bundle campaign.simps)
qed (simp_all add: generated_rate_def Let_def)

text \<open>
  Claim C3. The lines that the loop appends are a function of the observed years and of
  the three dictionaries alone: two tables with the same set of observed years and the
  same minimum, average and maximum rates get the same appended lines, whatever else
  differs between them. The table that was there is kept in front; there is one appended
  line for each of the years 2019 to 2024 that is not observed, in this order, when fewer
  than six years are observed, and none otherwise. The rate appended for a campaign and
  a year is the clamped value of a closed formula in the year and the campaign's three
  entries: a ramp with a bend at 2021 for the first campaign, the average plus or minus a
  sixth of the range, or the average itself, for the second, a straight line for the
  third, and a rise, a fall and a rise for the fourth.
\<close>

theorem fill_missing_years_deterministic:
  assumes "set (map fst yt) = set (map fst yt')"
    and "min_rates yt = min_rates yt'"
    and "avg_rates yt = avg_rates yt'"
    and "max_rates yt = max_rates yt'"
  shows "drop (length yt) (fill_missing_years yt)
           = drop (length yt') (fill_missing_years yt') \<and>
         fill_missing_years yt = yt @ drop (length yt) (fill_missing_years yt) \<and>
         map fst (drop (length yt) (fill_missing_years yt)) =
           (if card (set (map fst yt)) < 6
            then filter (\<lambda>y. y \<notin> set (map fst yt)) [2019, 2020, 2021, 2022, 2023, 2024]
            else []) \<and>
         (\<forall>line\<in>set (drop (length yt) (fill_missing_years yt)). \<forall>c.
            snd line c =
              (let y = fst line; mn = min_rates yt c; b = avg_rates yt c; mx = max_rates yt c
               in max mn (min
                    (case c of
                       Spring_Wine_Festival \<Rightarrow>
                         if y < 2021 then mn + real_of_int (y - 2019) * (b - mn) / 3
                         else b + real_of_int (y - 2021) * (mx - b) / 4
                     | Summer_Fruit_Bundle \<Rightarrow>
                         b + (if y = 2020 \<or> y = 2024 then 1 else if y = 2022 then - 1 else 0)
                               * (mx - mn) / 6
                     | Autumn_Meat_Sampler \<Rightarrow> mn + real_of_int (y - 2019) * (mx - mn) * 4 / 25
                     | Winter_Seafood_Discount \<Rightarrow>
                         if y < 2021 then mn + real_of_int (y - 2019) * (mx - mn) / 2
                         else if y < 2023 then mx - real_of_int (y - 2021) * (mx - mn) / 3
                         else mn + real_of_int (y - 2023) * (b - mn) / 2) mx)))"
proof -
  have added: "drop (length t) (fill_missing_years t) =
      (if card (set (map fst t)) < 6 then map (new_row t) (missing_years t) else [])" for t
    by (simp add: fill_missing_years_closed existing_years_def length_unique)
  have missing: "missing_years t = filter (\<lambda>y. y \<notin> set (map fst t)) [2019, 2020, 2021, 2022, 2023, 2024]"
    for t
    by (simp add: missing_years_def existing_years_def all_years_def)
  have same_row: "new_row yt y = new_row yt' y" for y
    by (simp add: new_row_def assms(2-4))
  have 1: "drop (length yt) (fill_missing_years yt) = drop (length yt') (fill_missing_years yt')"
    unfolding added missing using assms(1) by (simp add: same_row)
  have 2: "fill_missing_years yt = yt @ drop (length yt) (fill_missing_years yt)"
    by (simp add: fill_missing_years_closed)
  have 3: "map fst (drop (length yt) (fill_missing_years yt)) =
           (if card (set (map fst yt)) < 6
            then filter (\<lambda>y. y \<notin> set (map fst yt)) [2019, 2020, 2021, 2022, 2023, 2024]
            else [])"
    unfolding added missing by (simp add: new_row_def comp_def)
  have 4: "snd line c =
              (let y = fst line; mn = min_rates yt c; b = avg_rates yt c; mx = max_rates yt c
               in max mn (min
                    (case c of
                       Spring_Wine_Festival \<Rightarrow>
                         if y < 2021 then mn + real_of_int (y - 2019) * (b - mn) / 3
                         else b + real_of_int (y - 2021) * (mx - b) / 4
                     | Summer_Fruit_Bundle \<Rightarrow>
                         b + (if y = 2020 \<or> y = 2024 then 1 else if y = 2022 then - 1 else 0)
                               * (mx - mn) / 6
                     | Autumn_Meat_Sampler \<Rightarrow> mn + real_of_int (y - 2019) * (mx - mn) * 4 / 25
                     | Winter_Seafood_Discount \<Rightarrow>
                         if y < 2021 then mn + real_of_int (y - 2019) * (mx - mn) / 2
                         else if y < 2023 then mx - real_of_int (y - 2021) * (mx - mn) / 3
                         else mn + real_of_int (y - 2023) * (b - mn) / 2) mx))"
    if "line \<in> set (drop (length yt) (fill_missing_years yt))" for line c
  proof -
    from that obtain y where y: "y \<in> set (missing_years yt)" and line: "line = new_row yt y"
      unfolding added by (auto split: if_splits)
    from y have "y \<in> set all_years" by (simp add: missing_years_def)
    then show ?thesis
      unfolding line new_row_def Let_def fst_conv snd_conv
      by (rule generated_rate_closed)
  qed
  show ?thesis
    by (intro conjI ballI allI) (rule 1 2 3 4, assumption?)+
qed

lemma trends_ab_rates:
  "set (map fst trends_a) = set (map fst trends_b)"
  "min_rates trends_a = min_rates trends_b"
  "avg_rates trends_a = avg_rates trends_b"
  "max_rates trends_a = max_rates trends_b"
  by (auto simp: trends_a_def trends_b_def min_rates_def avg_rates_def max_rates_def
      group_mean_def fun_eq_iff)

lemma trends_a_rates:
  "min_rates trends_a c = 9 / 100" "avg_rates trends_a c = 15 / 100"
  "max_rates trends_a c = 22 / 100"
  by (simp_all add: trends_a_def min_rates_def avg_rates_def max_rates_def group_mean_def)

text \<open>
  Two tables that differ, with the two observed years in the other order, get the same
  four lines for 2021 to 2024.
\<close>

theorem fill_missing_years_deterministic_witness:
  "map fst trends_a \<noteq> map fst trends_b \<and>
   set (map fst trends_a) = set (map fst trends_b) \<and>
   min_rates trends_a = min_rates trends_b \<and>
   avg_rates trends_a = avg_rates trends_b \<and>
   max_rates trends_a = max_rates trends_b \<and>
   drop 2 (fill_missing_years trends_a) = drop 2 (fill_missing_years trends_b) \<and>
   map (\<lambda>line. (fst line, snd line Summer_Fruit_Bundle)) (drop 2 (fill_missing_years trends_a))
     = [(2021, 15 / 100), (2022, 77 / 600), (2023, 15 / 100), (2024, 103 / 600)]"
proof -
  have ne: "map fst trends_a \<noteq> map fst trends_b"
    by (simp add: trends_a_def trends_b_def)
  have len: "length trends_a = 2" "length trends_b = 2"
    by (simp_all add: trends_a_def trends_b_def)
  have years: "map fst trends_a = [2019, 2020]"
    by (simp add: trends_a_def)
  note d = fill_missing_years_deterministic [OF trends_ab_rates]
  from d have same: "drop 2 (fill_missing_years trends_a) = drop 2 (fill_missing_years trends_b)"
    by (simp only: len)
  from d [THEN conjunct2, THEN conjunct2, THEN conjunct1]
  have ys: "map fst (drop 2 (fill_missing_years trends_a)) = [2021, 2022, 2023, 2024]"
    by (simp add: len years)
  from d [THEN conjunct2, THEN conjunct2, THEN conjunct2]
  have val: "snd line Summer_Fruit_Bundle =
      max (9 / 100) (min (15 / 100 +
        (if fst line = 2020 \<or> fst line = 2024 then 1 else if fst line = 2022 then - 1 else 0)
          * (22 / 100 - 9 / 100) / 6) (22 / 100))"
    if "line \<in> set (drop 2 (fill_missing_years trends_a))" for line
    using that by (simp add: len Let_def trends_a_rates)
  have "map (\<lambda>line. (fst line, snd line Summer_Fruit_Bundle)) (drop 2 (fill_missing_years trends_a))
     = map (\<lambda>y. (y, max (9 / 100) (min (15 / 100 +
        (if y = 2020 \<or> y = 2024 then 1 else if y = 2022 then - 1 else 0)
          * (22 / 100 - 9 / 100) / 6) (22 / 100)))) (map fst (drop 2 (fill_missing_years trends_a)))"
    by (simp add: comp_def val cong: map_cong)
  also have "\<dots> = [(2021, 15 / 100), (2022, 77 / 600), (2023, 15 / 100), (2024, 103 / 600)]"
    unfolding ys by simp
  finally show ?thesis using ne same trends_ab_rates by blast
qed

end
